theory Spec2Isabelle
  imports Complex_Main
begin

section \<open>Python values and exceptions\<close>

text \<open>
  The package \<^verbatim>\<open>odlpet\<close> drives the STIR reconstruction engine through its Python
  binding. The theory embeds the three modules \<^verbatim>\<open>scanner/scanner.py\<close>,
  \<^verbatim>\<open>scanner/compression.py\<close> and \<^verbatim>\<open>stir/bindings.py\<close>. Python integers are
  \<^typ>\<open>int\<close>; Python floats are carried as \<^typ>\<open>real\<close> (their rounding is not
  part of the model); an exception is a value of \<open>error\<close> and a function that can
  raise returns \<open>error + 'a\<close>, \<open>Inl\<close> being the raise.
\<close>

datatype error =
    ValueError string
  | TypeError string
  | OverflowError string
  | AttributeError string
  | OpNotImplementedError string
  | EngineError string

definition bind_error :: "error + 'a \<Rightarrow> ('a \<Rightarrow> error + 'b) \<Rightarrow> error + 'b" where
  "bind_error m f = (case m of Inl e \<Rightarrow> Inl e | Inr x \<Rightarrow> f x)"

text \<open>\<^verbatim>\<open>int(x)\<close> of a float: truncation towards zero.\<close>

definition py_int :: "real \<Rightarrow> int" where
  "py_int x = (if 0 \<le> x then \<lfloor>x\<rfloor> else \<lceil>x\<rceil>)"

text \<open>
  \<^verbatim>\<open>np.int32(x)\<close> of a Python integer: the value when it fits 32 signed bits,
  \<^verbatim>\<open>OverflowError\<close> otherwise (as NumPy 2 does; the text of the message is not
  modelled, here and for the errors the engine's binding raises: a fixed text stands
  for it).
\<close>

definition np_int32 :: "int \<Rightarrow> error + int" where
  "np_int32 x =
     (if - 2147483648 \<le> x \<and> x \<le> 2147483647 then Inr x
      else Inl (OverflowError ''Python integer out of bounds for int32''))"

text \<open>\<^verbatim>\<open>str(n)\<close> of a non-negative integer and \<^verbatim>\<open>str(t)\<close> of a tuple of them.\<close>

definition digit_char :: "nat \<Rightarrow> char" where
  "digit_char d = ''0123456789'' ! d"

function str_nat :: "nat \<Rightarrow> string" where
  "str_nat n =
     (if n < 10 then [digit_char n] else str_nat (n div 10) @ [digit_char (n mod 10)])"
  by pat_completeness auto
termination
  by (relation "measure id") auto

declare str_nat.simps [simp del]

fun join_comma :: "string list \<Rightarrow> string" where
  "join_comma [] = []"
| "join_comma [x] = x"
| "join_comma (x # y # ys) = x @ '', '' @ join_comma (y # ys)"

definition str_tuple :: "nat list \<Rightarrow> string" where
  "str_tuple xs =
     (case xs of
        [x] \<Rightarrow> ''('' @ str_nat x @ '',)''
      | _ \<Rightarrow> ''('' @ join_comma (map str_nat xs) @ '')'')"

section \<open>The engine's scanner objects\<close>

text \<open>
  A \<^verbatim>\<open>stir.Scanner\<close>, as far as the package reads and writes it: one field for each
  getter/setter pair, named after the getter.
\<close>

record stir_scanner =
  get_num_rings :: int
  get_num_detectors_per_ring :: int
  get_default_bin_size :: real
  get_default_num_arccorrected_bins :: int
  get_default_intrinsic_tilt :: real
  get_inner_ring_radius :: real
  get_ring_spacing :: real
  get_average_depth_of_interaction :: real
  get_max_num_non_arccorrected_bins :: int
  get_num_axial_blocks_per_bucket :: int
  get_num_transaxial_blocks_per_bucket :: int
  get_num_axial_crystals_per_block :: int
  get_num_transaxial_crystals_per_block :: int
  get_num_axial_crystals_per_singles_unit :: int
  get_num_transaxial_crystals_per_singles_unit :: int
  get_num_detector_layers :: int

text \<open>
  What the package takes from outside and the model does not define: the registry
  \<^verbatim>\<open>SCANNER_NAMES\<close> (computed once, at import, from the engine's listing), the
  scanner the engine makes for a name, the engine's consistency predicate
  (\<^verbatim>\<open>check_consistency() == Succeeded.yes\<close>), and the rounding of \<^verbatim>\<open>np.float32\<close>.
\<close>

record stir_api =
  SCANNER_NAMES :: "string list"
  scanner_from_name :: "string \<Rightarrow> stir_scanner"
  check_consistency :: "stir_scanner \<Rightarrow> bool"
  np_float32 :: "real \<Rightarrow> real"

section \<open>The engine's process state and the package's objects\<close>

text \<open>
  The engine's buffers are of two classes, image volumes
  (\<^verbatim>\<open>stir.FloatVoxelsOnCartesianGrid\<close>) and projection data (\<^verbatim>\<open>stir.ProjData\<close>); a
  buffer is named by its class and a number, so a volume is never a projection-data
  buffer. \<open>buf_shape\<close> is what \<^verbatim>\<open>volume.shape()\<close> and
  \<^verbatim>\<open>proj_data.to_array().shape()\<close> read; \<open>buf_data\<close> is what \<^verbatim>\<open>fill\<close> writes and
  \<^verbatim>\<open>stirextra.to_numpy\<close> reads.
\<close>

datatype buffer_id = Volume nat | ProjData nat

record buffer =
  buf_shape :: "nat list"
  buf_data :: "real list"

text \<open>
  The objects that reach the optional parameters of the two operator constructors:
  the projection-data info of a projection-data buffer, an engine projector of either
  direction (by its number), or an operator object of this package (by its address).
\<close>

datatype pyval =
    ProjDataInfo nat
  | ForwardProjectorByBin nat
  | BackProjectorByBin nat
  | Operator nat

text \<open>
  A \<^verbatim>\<open>stir.ProjMatrixByBinUsingRayTracing\<close>, as the calls made on it have left it: a
  setting is \<open>None\<close> until its setter is called, and \<open>set_up_called\<close> tells whether
  \<^verbatim>\<open>set_up\<close> was called on the matrix object itself.
\<close>

record proj_matrix =
  do_symmetry_90degrees_min_phi :: "bool option"
  do_symmetry_180degrees_min_phi :: "bool option"
  do_symmetry_swap_s :: "bool option"
  do_symmetry_swap_segment :: "bool option"
  num_tangential_LORs :: "int option"
  set_up_called :: bool

text \<open>An engine projector (of either direction): the matrix it was built on.\<close>

record engine_projector =
  matrix :: nat
  projector_set_up :: bool

text \<open>
  One projection call as the engine received it: the method, the projector, the
  process-wide verbosity level in force, and the contents of the destination and of
  the source buffer at that moment.
\<close>

datatype engine_method = forward_project | back_project

record projection_call =
  call_method :: engine_method
  call_projector :: nat
  call_verbosity :: int
  call_out_before :: "real list"
  call_in :: "real list"

text \<open>An ODL discretised space, as far as the package uses it: its shape.\<close>

record DiscreteLp =
  shape :: "nat list"

text \<open>\<^verbatim>\<open>space.zero()\<close>, flattened: one zero for every cell.\<close>

definition zero_of :: "DiscreteLp \<Rightarrow> real list" where
  "zero_of sp = replicate (prod_list (shape sp)) 0"

text \<open>
  The attributes of the two operator classes. Both derive from ODL's
  \<^verbatim>\<open>Operator\<close>; \<open>self_x\<close> is the attribute \<^verbatim>\<open>self.x\<close>, and \<open>self_adjoint\<close> is
  \<^verbatim>\<open>self._adjoint\<close>, which the property \<^verbatim>\<open>adjoint\<close> of the forward class returns.
  \<open>self_proj_matrix\<close> is \<open>None\<close> on a forward operator that was given its projector.
\<close>

record operator =
  self_verbosity :: int
  self_domain :: DiscreteLp
  self_range :: DiscreteLp
  self_proj_data :: nat
  self_proj_data_info :: pyval
  self_volume :: nat
  self_adjoint :: pyval

record forward_wrapper = operator +
  self_proj_matrix :: "nat option"
  self_projector :: pyval

record back_wrapper = operator +
  self_back_projector :: pyval

datatype py_object = Forward forward_wrapper | Back back_wrapper

text \<open>
  The state the functions below pass along: the engine's process-wide verbosity
  level, the number of scanner objects it has made, its matrices and projectors (an
  object's number is its position), its buffers, the projection calls it has
  received, and the operator objects of this package by address.
\<close>

record state =
  Verbosity :: int
  scanners_made :: nat
  proj_matrices :: "proj_matrix list"
  forward_projectors :: "engine_projector list"
  back_projectors :: "engine_projector list"
  buffers :: "buffer_id \<Rightarrow> buffer"
  calls :: "projection_call list"
  objects :: "nat \<Rightarrow> py_object option"
  next_id :: nat

section \<open>scanner/scanner.py\<close>

text \<open>\<^verbatim>\<open>stir.Scanner.get_scanner_from_name(name)\<close>: the engine makes a scanner object.\<close>

definition Scanner_get_scanner_from_name ::
  "stir_api \<Rightarrow> string \<Rightarrow> state \<Rightarrow> stir_scanner \<times> state" where
  "Scanner_get_scanner_from_name api name s =
     (scanner_from_name api name, s\<lparr>scanners_made := Suc (scanners_made s)\<rparr>)"

text \<open>\<^verbatim>\<open>_get_scanner_by_name(name)\<close>\<close>

definition get_scanner_by_name_stir ::
  "stir_api \<Rightarrow> string \<Rightarrow> state \<Rightarrow> (error + stir_scanner) \<times> state" where
  "get_scanner_by_name_stir api name s =
     (if name \<notin> set (SCANNER_NAMES api)
      then (Inl (ValueError (''No default scanner of name '' @ name)), s)
      else (let (stir_scanner, s1) = Scanner_get_scanner_from_name api name s
            in (Inr stir_scanner, s1)))"

text \<open>The class \<^verbatim>\<open>Scanner\<close>: its two class attributes default to \<^verbatim>\<open>None\<close>.\<close>

record Scanner =
  num_rings :: int
  num_dets_per_ring :: int
  det_radius :: real
  ring_spacing :: real
  average_depth_of_inter :: real
  voxel_size_xy :: real
  axial_crystals_per_block :: int
  trans_crystals_per_block :: int
  axials_blocks_per_bucket :: int
  trans_blocks_per_bucket :: int
  axial_crystals_per_singles_unit :: int
  trans_crystals_per_singles_unit :: int
  num_detector_layers :: int
  intrinsic_tilt :: real
  max_num_non_arc_cor_bins :: "int option"
  default_non_arc_cor_bins :: "int option"

text \<open>\<^verbatim>\<open>_scanner_from_stir(stir_scanner)\<close>\<close>

definition scanner_from_stir :: "stir_scanner \<Rightarrow> Scanner" where
  "scanner_from_stir stir_scanner =
     \<lparr> num_rings = get_num_rings stir_scanner,
       num_dets_per_ring = get_num_detectors_per_ring stir_scanner,
       det_radius = get_inner_ring_radius stir_scanner,
       ring_spacing = get_ring_spacing stir_scanner,
       average_depth_of_inter = get_average_depth_of_interaction stir_scanner,
       voxel_size_xy = get_default_bin_size stir_scanner,
       axial_crystals_per_block = get_num_axial_crystals_per_block stir_scanner,
       trans_crystals_per_block = get_num_transaxial_crystals_per_block stir_scanner,
       axials_blocks_per_bucket = get_num_axial_blocks_per_bucket stir_scanner,
       trans_blocks_per_bucket = get_num_transaxial_blocks_per_bucket stir_scanner,
       axial_crystals_per_singles_unit = get_num_axial_crystals_per_singles_unit stir_scanner,
       trans_crystals_per_singles_unit =
         get_num_transaxial_crystals_per_singles_unit stir_scanner,
       num_detector_layers = get_num_detector_layers stir_scanner,
       intrinsic_tilt = get_default_intrinsic_tilt stir_scanner,
       max_num_non_arc_cor_bins = Some (get_max_num_non_arccorrected_bins stir_scanner),
       default_non_arc_cor_bins = Some (get_default_num_arccorrected_bins stir_scanner) \<rparr>"

text \<open>\<^verbatim>\<open>get_scanner_by_name(name)\<close>\<close>

definition get_scanner_by_name ::
  "stir_api \<Rightarrow> string \<Rightarrow> state \<Rightarrow> (error + Scanner) \<times> state" where
  "get_scanner_by_name api name s =
     (case get_scanner_by_name_stir api name s of
        (Inl e, s1) \<Rightarrow> (Inl e, s1)
      | (Inr stir_scanner, s1) \<Rightarrow> (Inr (scanner_from_stir stir_scanner), s1))"

text \<open>
  A call of \<^verbatim>\<open>stir_get_STIR_geometry\<close>: the six required arguments and the ten
  optional ones, \<open>None\<close> for an argument the caller leaves out.
\<close>

record geometry_call =
  a_num_rings :: int
  a_num_dets_per_ring :: int
  a_det_radius :: real
  a_ring_spacing :: real
  a_average_depth_of_inter :: real
  a_voxel_size_xy :: real
  a_axial_crystals_per_block :: "int option"
  a_trans_crystals_per_block :: "int option"
  a_axials_blocks_per_bucket :: "int option"
  a_trans_blocks_per_bucket :: "int option"
  a_axial_crystals_per_singles_unit :: "int option"
  a_trans_crystals_per_singles_unit :: "int option"
  a_num_detector_layers :: "int option"
  a_intrinsic_tilt :: "real option"
  a_max_num_non_arc_cor_bins :: "int option"
  a_default_non_arc_cor_bins :: "int option"

text \<open>The function's sixteen local variables once every default is resolved.\<close>

record geometry_locals =
  l_num_rings :: int
  l_num_dets_per_ring :: int
  l_det_radius :: real
  l_ring_spacing :: real
  l_average_depth_of_inter :: real
  l_voxel_size_xy :: real
  l_axial_crystals_per_block :: int
  l_trans_crystals_per_block :: int
  l_axials_blocks_per_bucket :: int
  l_trans_blocks_per_bucket :: int
  l_axial_crystals_per_singles_unit :: int
  l_trans_crystals_per_singles_unit :: int
  l_num_detector_layers :: int
  l_intrinsic_tilt :: real
  l_max_num_non_arc_cor_bins :: int
  l_default_non_arc_cor_bins :: int

definition or_default :: "'a option \<Rightarrow> 'a \<Rightarrow> 'a" where
  "or_default given dflt = (case given of None \<Rightarrow> dflt | Some v \<Rightarrow> v)"

text \<open>
  The signature's defaults and the two \<^verbatim>\<open>if ... is None\<close> statements that open the
  body of \<^verbatim>\<open>stir_get_STIR_geometry\<close>.
\<close>

definition resolve_defaults :: "geometry_call \<Rightarrow> geometry_locals" where
  "resolve_defaults a =
     (let max_num_non_arc_cor_bins =
            (case a_max_num_non_arc_cor_bins a of
               None \<Rightarrow> py_int (real_of_int (a_num_dets_per_ring a) / 2)
             | Some m \<Rightarrow> m);
          default_non_arc_cor_bins =
            (case a_default_non_arc_cor_bins a of
               None \<Rightarrow> max_num_non_arc_cor_bins
             | Some d \<Rightarrow> d)
      in \<lparr> l_num_rings = a_num_rings a,
           l_num_dets_per_ring = a_num_dets_per_ring a,
           l_det_radius = a_det_radius a,
           l_ring_spacing = a_ring_spacing a,
           l_average_depth_of_inter = a_average_depth_of_inter a,
           l_voxel_size_xy = a_voxel_size_xy a,
           l_axial_crystals_per_block = or_default (a_axial_crystals_per_block a) 1,
           l_trans_crystals_per_block = or_default (a_trans_crystals_per_block a) 1,
           l_axials_blocks_per_bucket = or_default (a_axials_blocks_per_bucket a) 1,
           l_trans_blocks_per_bucket = or_default (a_trans_blocks_per_bucket a) 1,
           l_axial_crystals_per_singles_unit =
             or_default (a_axial_crystals_per_singles_unit a) 1,
           l_trans_crystals_per_singles_unit =
             or_default (a_trans_crystals_per_singles_unit a) 1,
           l_num_detector_layers = or_default (a_num_detector_layers a) 1,
           l_intrinsic_tilt = or_default (a_intrinsic_tilt a) 0,
           l_max_num_non_arc_cor_bins = max_num_non_arc_cor_bins,
           l_default_non_arc_cor_bins = default_non_arc_cor_bins \<rparr>)"

text \<open>
  One setter call \<^verbatim>\<open>scanner.set_x(np.int32(v))\<close> or \<^verbatim>\<open>scanner.set_x(np.float32(v))\<close>
  on the scanner being configured; the conversion of an integer can raise.
\<close>

definition set_int32 ::
  "((int \<Rightarrow> int) \<Rightarrow> stir_scanner \<Rightarrow> stir_scanner) \<Rightarrow> int \<Rightarrow> stir_scanner \<Rightarrow>
     error + stir_scanner" where
  "set_int32 field_update v scanner =
     bind_error (np_int32 v) (\<lambda>w. Inr (field_update (\<lambda>_. w) scanner))"

definition set_float32 ::
  "stir_api \<Rightarrow> ((real \<Rightarrow> real) \<Rightarrow> stir_scanner \<Rightarrow> stir_scanner) \<Rightarrow> real \<Rightarrow> stir_scanner \<Rightarrow>
     error + stir_scanner" where
  "set_float32 api field_update v scanner =
     Inr (field_update (\<lambda>_. np_float32 api v) scanner)"

text \<open>The sixteen setter calls, in the order of the source.\<close>

definition setter_calls ::
  "stir_api \<Rightarrow> geometry_locals \<Rightarrow> (stir_scanner \<Rightarrow> error + stir_scanner) list" where
  "setter_calls api l =
     [ set_int32 get_num_rings_update (l_num_rings l),
       set_int32 get_num_detectors_per_ring_update (l_num_dets_per_ring l),
       set_float32 api get_default_bin_size_update (l_voxel_size_xy l),
       set_int32 get_default_num_arccorrected_bins_update (l_default_non_arc_cor_bins l),
       set_float32 api get_default_intrinsic_tilt_update (l_intrinsic_tilt l),
       set_float32 api get_inner_ring_radius_update (l_det_radius l),
       set_float32 api get_ring_spacing_update (l_ring_spacing l),
       set_float32 api get_average_depth_of_interaction_update (l_average_depth_of_inter l),
       set_int32 get_max_num_non_arccorrected_bins_update (l_max_num_non_arc_cor_bins l),
       set_int32 get_num_axial_blocks_per_bucket_update (l_axials_blocks_per_bucket l),
       set_int32 get_num_transaxial_blocks_per_bucket_update (l_trans_blocks_per_bucket l),
       set_int32 get_num_axial_crystals_per_block_update (l_axial_crystals_per_block l),
       set_int32 get_num_transaxial_crystals_per_block_update (l_trans_crystals_per_block l),
       set_int32 get_num_axial_crystals_per_singles_unit_update
         (l_axial_crystals_per_singles_unit l),
       set_int32 get_num_transaxial_crystals_per_singles_unit_update
         (l_trans_crystals_per_singles_unit l),
       set_int32 get_num_detector_layers_update (l_num_detector_layers l) ]"

definition configure :: "stir_api \<Rightarrow> geometry_locals \<Rightarrow> stir_scanner \<Rightarrow> error + stir_scanner" where
  "configure api l scanner = foldl bind_error (Inr scanner) (setter_calls api l)"

text \<open>\<^verbatim>\<open>_check_consistency(_scanner)\<close>\<close>

definition check_consistency_py :: "stir_api \<Rightarrow> stir_scanner \<Rightarrow> bool" where
  "check_consistency_py api scanner = check_consistency api scanner"

text \<open>\<^verbatim>\<open>stir_get_STIR_geometry\<close>\<close>

definition stir_get_STIR_geometry ::
  "stir_api \<Rightarrow> geometry_call \<Rightarrow> state \<Rightarrow> (error + stir_scanner) \<times> state" where
  "stir_get_STIR_geometry api a s =
     (let l = resolve_defaults a;
          (scanner, s1) = Scanner_get_scanner_from_name api [] s
      in case configure api l scanner of
           Inl e \<Rightarrow> (Inl e, s1)
         | Inr scanner' \<Rightarrow>
             if check_consistency_py api scanner' then (Inr scanner', s1)
             else (Inl (TypeError ''Something is wrong in the scanner geometry.''), s1))"

text \<open>\<^verbatim>\<open>Scanner.get_stir_scanner\<close>: all sixteen arguments are passed.\<close>

definition get_stir_scanner ::
  "stir_api \<Rightarrow> Scanner \<Rightarrow> state \<Rightarrow> (error + stir_scanner) \<times> state" where
  "get_stir_scanner api self s =
     stir_get_STIR_geometry api
       \<lparr> a_num_rings = num_rings self,
         a_num_dets_per_ring = num_dets_per_ring self,
         a_det_radius = det_radius self,
         a_ring_spacing = ring_spacing self,
         a_average_depth_of_inter = average_depth_of_inter self,
         a_voxel_size_xy = voxel_size_xy self,
         a_axial_crystals_per_block = Some (axial_crystals_per_block self),
         a_trans_crystals_per_block = Some (trans_crystals_per_block self),
         a_axials_blocks_per_bucket = Some (axials_blocks_per_bucket self),
         a_trans_blocks_per_bucket = Some (trans_blocks_per_bucket self),
         a_axial_crystals_per_singles_unit = Some (axial_crystals_per_singles_unit self),
         a_trans_crystals_per_singles_unit = Some (trans_crystals_per_singles_unit self),
         a_num_detector_layers = Some (num_detector_layers self),
         a_intrinsic_tilt = Some (intrinsic_tilt self),
         a_max_num_non_arc_cor_bins = max_num_non_arc_cor_bins self,
         a_default_non_arc_cor_bins = default_non_arc_cor_bins self \<rparr> s"

text \<open>The class \<^verbatim>\<open>mCT\<close>.\<close>

definition mCT :: Scanner where
  "mCT =
     \<lparr> num_rings = 8,
       num_dets_per_ring = 112,
       det_radius = 57.5,
       ring_spacing = 6.25,
       average_depth_of_inter = 7.0,
       voxel_size_xy = 1.65,
       axial_crystals_per_block = 8,
       trans_crystals_per_block = 7,
       axials_blocks_per_bucket = 1,
       trans_blocks_per_bucket = 16,
       axial_crystals_per_singles_unit = 8,
       trans_crystals_per_singles_unit = 0,
       num_detector_layers = 1,
       intrinsic_tilt = 0.0,
       max_num_non_arc_cor_bins = None,
       default_non_arc_cor_bins = None \<rparr>"

section \<open>scanner/compression.py\<close>

text \<open>The class \<^verbatim>\<open>Compression\<close> and its constructor.\<close>

record Compression =
  scanner :: Scanner
  span_num :: int
  max_num_segments :: "int option"
  num_of_views :: int
  num_non_arccor_bins :: "int option"
  data_arc_corrected :: bool

definition Compression_init :: "Scanner \<Rightarrow> Compression" where
  "Compression_init scanner' =
     \<lparr> scanner = scanner',
       span_num = 1,
       max_num_segments = None,
       num_of_views = num_dets_per_ring scanner' div 2,
       num_non_arccor_bins = Some (num_dets_per_ring scanner' div 2),
       data_arc_corrected = False \<rparr>"

definition get_default_num_tangential :: "Compression \<Rightarrow> int option" where
  "get_default_num_tangential self =
     (if data_arc_corrected self then default_non_arc_cor_bins (scanner self)
      else max_num_non_arc_cor_bins (scanner self))"

definition get_num_tangential :: "Compression \<Rightarrow> int option" where
  "get_num_tangential self =
     (case num_non_arccor_bins self of
        None \<Rightarrow> get_default_num_tangential self
      | Some n \<Rightarrow> Some n)"

definition get_default_max_diff_ring :: "Compression \<Rightarrow> int" where
  "get_default_max_diff_ring self = num_rings (scanner self) - 1"

definition get_max_ring_diff :: "Compression \<Rightarrow> int" where
  "get_max_ring_diff self =
     (case max_num_segments self of
        None \<Rightarrow> get_default_max_diff_ring self
      | Some m \<Rightarrow> m)"

text \<open>
  The engine's \<^verbatim>\<open>ProjDataInfoCTI\<close> object, as the six arguments it was made from. The
  engine takes an integer for the number of tangential positions: \<^verbatim>\<open>None\<close> there is
  a \<^verbatim>\<open>TypeError\<close> of the binding.
\<close>

record ProjDataInfoCTI =
  info_scanner :: stir_scanner
  info_span :: int
  info_max_delta :: int
  info_num_views :: int
  info_num_tangential_poss :: int
  info_arc_corrected :: bool

definition get_stir_proj_data_info ::
  "stir_api \<Rightarrow> Compression \<Rightarrow> state \<Rightarrow> (error + ProjDataInfoCTI) \<times> state" where
  "get_stir_proj_data_info api self s =
     (case get_stir_scanner api (scanner self) s of
        (Inl e, s1) \<Rightarrow> (Inl e, s1)
      | (Inr stir_scanner, s1) \<Rightarrow>
          (case get_num_tangential self of
             None \<Rightarrow> (Inl (TypeError ''ProjDataInfoCTI: argument 5 of type int''), s1)
           | Some num_tangential \<Rightarrow>
               (Inr \<lparr> info_scanner = stir_scanner,
                      info_span = span_num self,
                      info_max_delta = get_max_ring_diff self,
                      info_num_views = num_of_views self,
                      info_num_tangential_poss = num_tangential,
                      info_arc_corrected = data_arc_corrected self \<rparr>, s1)))"

section \<open>stir/bindings.py: the engine calls\<close>

text \<open>\<^verbatim>\<open>proj_data.get_proj_data_info()\<close>\<close>

definition get_proj_data_info :: "nat \<Rightarrow> pyval" where
  "get_proj_data_info proj_data = ProjDataInfo proj_data"

text \<open>\<^verbatim>\<open>stir.ProjMatrixByBinUsingRayTracing()\<close>: a new matrix, nothing set.\<close>

definition bare_matrix :: proj_matrix where
  "bare_matrix =
     \<lparr> do_symmetry_90degrees_min_phi = None,
       do_symmetry_180degrees_min_phi = None,
       do_symmetry_swap_s = None,
       do_symmetry_swap_segment = None,
       num_tangential_LORs = None,
       set_up_called = False \<rparr>"

definition ProjMatrixByBinUsingRayTracing :: "state \<Rightarrow> nat \<times> state" where
  "ProjMatrixByBinUsingRayTracing s =
     (length (proj_matrices s), s\<lparr>proj_matrices := proj_matrices s @ [bare_matrix]\<rparr>)"

definition update_matrix :: "nat \<Rightarrow> (proj_matrix \<Rightarrow> proj_matrix) \<Rightarrow> state \<Rightarrow> state" where
  "update_matrix m f s = s\<lparr>proj_matrices := (proj_matrices s)[m := f (proj_matrices s ! m)]\<rparr>"

definition set_do_symmetry_90degrees_min_phi :: "nat \<Rightarrow> bool \<Rightarrow> state \<Rightarrow> state" where
  "set_do_symmetry_90degrees_min_phi m b =
     update_matrix m (\<lambda>x. x\<lparr>do_symmetry_90degrees_min_phi := Some b\<rparr>)"

definition set_do_symmetry_180degrees_min_phi :: "nat \<Rightarrow> bool \<Rightarrow> state \<Rightarrow> state" where
  "set_do_symmetry_180degrees_min_phi m b =
     update_matrix m (\<lambda>x. x\<lparr>do_symmetry_180degrees_min_phi := Some b\<rparr>)"

definition set_do_symmetry_swap_s :: "nat \<Rightarrow> bool \<Rightarrow> state \<Rightarrow> state" where
  "set_do_symmetry_swap_s m b = update_matrix m (\<lambda>x. x\<lparr>do_symmetry_swap_s := Some b\<rparr>)"

definition set_do_symmetry_swap_segment :: "nat \<Rightarrow> bool \<Rightarrow> state \<Rightarrow> state" where
  "set_do_symmetry_swap_segment m b =
     update_matrix m (\<lambda>x. x\<lparr>do_symmetry_swap_segment := Some b\<rparr>)"

definition set_num_tangential_LORs :: "nat \<Rightarrow> int \<Rightarrow> state \<Rightarrow> state" where
  "set_num_tangential_LORs m n = update_matrix m (\<lambda>x. x\<lparr>num_tangential_LORs := Some n\<rparr>)"

text \<open>
  \<^verbatim>\<open>set_up(proj_data_info, volume)\<close> on a matrix or on a projector. The binding of the
  engine takes a projection-data info for the first argument and raises
  \<^verbatim>\<open>TypeError\<close> for any other object.
\<close>

definition set_up_type_error :: error where
  "set_up_type_error = TypeError ''set_up: argument 2 of type ProjDataInfo''"

definition matrix_set_up :: "nat \<Rightarrow> pyval \<Rightarrow> nat \<Rightarrow> state \<Rightarrow> (error + unit) \<times> state" where
  "matrix_set_up m info volume s =
     (case info of
        ProjDataInfo _ \<Rightarrow> (Inr (), update_matrix m (\<lambda>x. x\<lparr>set_up_called := True\<rparr>) s)
      | _ \<Rightarrow> (Inl set_up_type_error, s))"

text \<open>
  \<^verbatim>\<open>stir.ForwardProjectorByBinUsingProjMatrixByBin(proj_matrix)\<close> and
  \<^verbatim>\<open>stir.BackProjectorByBinUsingProjMatrixByBin(proj_matrix)\<close>: a new engine projector
  on the given matrix.
\<close>

definition ForwardProjectorByBinUsingProjMatrixByBin :: "nat \<Rightarrow> state \<Rightarrow> nat \<times> state" where
  "ForwardProjectorByBinUsingProjMatrixByBin m s =
     (length (forward_projectors s),
      s\<lparr>forward_projectors := forward_projectors s @
          [\<lparr>matrix = m, projector_set_up = False\<rparr>]\<rparr>)"

definition BackProjectorByBinUsingProjMatrixByBin :: "nat \<Rightarrow> state \<Rightarrow> nat \<times> state" where
  "BackProjectorByBinUsingProjMatrixByBin m s =
     (length (back_projectors s),
      s\<lparr>back_projectors := back_projectors s @
          [\<lparr>matrix = m, projector_set_up = False\<rparr>]\<rparr>)"

definition forward_projector_set_up ::
  "nat \<Rightarrow> pyval \<Rightarrow> nat \<Rightarrow> state \<Rightarrow> (error + unit) \<times> state" where
  "forward_projector_set_up p info volume s =
     (case info of
        ProjDataInfo _ \<Rightarrow>
          (Inr (),
           s\<lparr>forward_projectors :=
               (forward_projectors s)
                 [p := (forward_projectors s ! p)\<lparr>projector_set_up := True\<rparr>]\<rparr>)
      | _ \<Rightarrow> (Inl set_up_type_error, s))"

definition back_projector_set_up ::
  "nat \<Rightarrow> pyval \<Rightarrow> nat \<Rightarrow> state \<Rightarrow> (error + unit) \<times> state" where
  "back_projector_set_up p info volume s =
     (case info of
        ProjDataInfo _ \<Rightarrow>
          (Inr (),
           s\<lparr>back_projectors :=
               (back_projectors s)
                 [p := (back_projectors s ! p)\<lparr>projector_set_up := True\<rparr>]\<rparr>)
      | _ \<Rightarrow> (Inl set_up_type_error, s))"

text \<open>\<^verbatim>\<open>buffer.fill(values)\<close> and \<^verbatim>\<open>stirextra.to_numpy(buffer)\<close>\<close>

definition fill :: "buffer_id \<Rightarrow> real list \<Rightarrow> state \<Rightarrow> state" where
  "fill b values s = s\<lparr>buffers := (buffers s)(b := (buffers s b)\<lparr>buf_data := values\<rparr>)\<rparr>"

definition to_numpy :: "buffer_id \<Rightarrow> state \<Rightarrow> real list" where
  "to_numpy b s = buf_data (buffers s b)"

text \<open>
  The engine's projection itself is not modelled: \<open>engine\<close> stands for it, a
  function from the engine's state and the call it receives to the new contents of
  the destination buffer, or to the exception the engine raises. The engine records
  the call (with the verbosity level in force) and, when the projection returns,
  overwrites the destination.
\<close>

type_synonym projection_engine = "state \<Rightarrow> projection_call \<Rightarrow> error + real list"

definition engine_project ::
  "projection_engine \<Rightarrow> engine_method \<Rightarrow> nat \<Rightarrow> buffer_id \<Rightarrow> buffer_id \<Rightarrow> state \<Rightarrow>
     (error + unit) \<times> state" where
  "engine_project engine method p b_out b_in s =
     (let call = \<lparr> call_method = method,
                   call_projector = p,
                   call_verbosity = Verbosity s,
                   call_out_before = buf_data (buffers s b_out),
                   call_in = buf_data (buffers s b_in) \<rparr>;
          s1 = s\<lparr>calls := calls s @ [call]\<rparr>
      in case engine s call of
           Inl e \<Rightarrow> (Inl e, s1)
         | Inr result \<Rightarrow> (Inr (), fill b_out result s1))"

section \<open>stir/bindings.py: the verbosity scope\<close>

text \<open>
  The context manager \<^verbatim>\<open>StirVerbosity\<close>. \<^verbatim>\<open>__enter__\<close> reads the engine's level into
  \<^verbatim>\<open>self.old_verbosity\<close> (returned here) and sets the requested one; \<^verbatim>\<open>__exit__\<close> sets
  the level read back. \<open>with_StirVerbosity\<close> is the statement
  \<^verbatim>\<open>with StirVerbosity(verbosity): body\<close>: \<^verbatim>\<open>__exit__\<close> runs when the body returns and
  when it raises, and returns \<^verbatim>\<open>None\<close>, so an exception of the body goes on.
\<close>

definition StirVerbosity_enter :: "int \<Rightarrow> state \<Rightarrow> int \<times> state" where
  "StirVerbosity_enter verbosity s = (Verbosity s, s\<lparr>Verbosity := verbosity\<rparr>)"

definition StirVerbosity_exit :: "int \<Rightarrow> state \<Rightarrow> state" where
  "StirVerbosity_exit old_verbosity s = s\<lparr>Verbosity := old_verbosity\<rparr>"

definition with_StirVerbosity ::
  "int \<Rightarrow> (state \<Rightarrow> (error + 'a) \<times> state) \<Rightarrow> state \<Rightarrow> (error + 'a) \<times> state" where
  "with_StirVerbosity verbosity body s =
     (let (old_verbosity, s1) = StirVerbosity_enter verbosity s;
          (r, s2) = body s1
      in (r, StirVerbosity_exit old_verbosity s2))"

section \<open>stir/bindings.py: applying an operator\<close>

text \<open>
  \<^verbatim>\<open>call_with_stir_buffer(function, b_in, b_out, v_in, v_out=None)\<close>; \<open>v_in\<close> and
  \<open>v_out\<close> are the flattened arrays.
\<close>

definition call_with_stir_buffer ::
  "(buffer_id \<Rightarrow> buffer_id \<Rightarrow> state \<Rightarrow> (error + unit) \<times> state) \<Rightarrow>
     buffer_id \<Rightarrow> buffer_id \<Rightarrow> real list \<Rightarrow> real list option \<Rightarrow> state \<Rightarrow>
     (error + real list) \<times> state" where
  "call_with_stir_buffer function b_in b_out v_in v_out s =
     (let s1 = fill b_in v_in s;
          s2 = (case v_out of None \<Rightarrow> s1 | Some zeros \<Rightarrow> fill b_out zeros s1)
      in case function b_out b_in s2 of
           (Inl e, s3) \<Rightarrow> (Inl e, s3)
         | (Inr _, s3) \<Rightarrow> (Inr (to_numpy b_out s3), s3))"

text \<open>
  The attribute look-ups \<^verbatim>\<open>self.projector.forward_project\<close> and
  \<^verbatim>\<open>self.back_projector.back_project\<close>: only an engine projector of the right
  direction has the method.
\<close>

definition forward_project_of ::
  "projection_engine \<Rightarrow> pyval \<Rightarrow>
     error + (buffer_id \<Rightarrow> buffer_id \<Rightarrow> state \<Rightarrow> (error + unit) \<times> state)" where
  "forward_project_of engine obj =
     (case obj of
        ForwardProjectorByBin p \<Rightarrow> Inr (engine_project engine forward_project p)
      | _ \<Rightarrow> Inl (AttributeError ''forward_project''))"

definition back_project_of ::
  "projection_engine \<Rightarrow> pyval \<Rightarrow>
     error + (buffer_id \<Rightarrow> buffer_id \<Rightarrow> state \<Rightarrow> (error + unit) \<times> state)" where
  "back_project_of engine obj =
     (case obj of
        BackProjectorByBin p \<Rightarrow> Inr (engine_project engine back_project p)
      | _ \<Rightarrow> Inl (AttributeError ''back_project''))"

text \<open>
  \<^verbatim>\<open>ForwardProjectorByBinWrapper._call(volume, out)\<close>; the value returned is what the
  last statement writes to \<^verbatim>\<open>out\<close>.
\<close>

definition ForwardProjectorByBinWrapper_call ::
  "projection_engine \<Rightarrow> forward_wrapper \<Rightarrow> real list \<Rightarrow> state \<Rightarrow>
     (error + real list) \<times> state" where
  "ForwardProjectorByBinWrapper_call engine self volume s =
     (let s1 = fill (Volume (self_volume self)) volume s
      in with_StirVerbosity (self_verbosity self)
           (\<lambda>s2. case forward_project_of engine (self_projector self) of
                   Inl e \<Rightarrow> (Inl e, s2)
                 | Inr function \<Rightarrow>
                     call_with_stir_buffer function (Volume (self_volume self))
                       (ProjData (self_proj_data self)) volume None s2)
           s1)"

text \<open>\<^verbatim>\<open>BackProjectorByBinWrapper._call(projections, out)\<close>\<close>

definition BackProjectorByBinWrapper_call ::
  "projection_engine \<Rightarrow> back_wrapper \<Rightarrow> real list \<Rightarrow> state \<Rightarrow>
     (error + real list) \<times> state" where
  "BackProjectorByBinWrapper_call engine self projections s =
     with_StirVerbosity (self_verbosity self)
       (\<lambda>s1. case back_project_of engine (self_back_projector self) of
               Inl e \<Rightarrow> (Inl e, s1)
             | Inr function \<Rightarrow>
                 call_with_stir_buffer function (ProjData (self_proj_data self))
                   (Volume (self_volume self)) projections (Some (zero_of (self_range self))) s1)
       s"

section \<open>stir/bindings.py: constructing the operators\<close>

text \<open>
  An operator object gets its address when Python makes it, before \<^verbatim>\<open>__init__\<close>
  runs; \<^verbatim>\<open>__init__\<close> receives the address as \<^verbatim>\<open>self\<close>, and the object is in
  \<open>objects\<close> with its attributes once \<^verbatim>\<open>__init__\<close> has returned.
\<close>

definition new_object :: "state \<Rightarrow> nat \<times> state" where
  "new_object s = (next_id s, s\<lparr>next_id := Suc (next_id s)\<rparr>)"

definition set_object :: "nat \<Rightarrow> py_object \<Rightarrow> state \<Rightarrow> state" where
  "set_object self obj s = s\<lparr>objects := (objects s)(self \<mapsto> obj)\<rparr>"

text \<open>
  The statement \<^verbatim>\<open>if projector is None: ... else: ...\<close> of
  \<^verbatim>\<open>ForwardProjectorByBinWrapper.__init__\<close>. It returns \<^verbatim>\<open>self.proj_matrix\<close> (when
  set), \<^verbatim>\<open>self.projector\<close> and the local \<^verbatim>\<open>back_projector\<close>, which stays unbound
  (and is not read afterwards) when no projector but an adjoint is given.
\<close>

definition forward_projector_block ::
  "pyval \<Rightarrow> nat \<Rightarrow> pyval option \<Rightarrow> pyval option \<Rightarrow> state \<Rightarrow>
     (error + nat option \<times> pyval \<times> pyval option) \<times> state" where
  "forward_projector_block proj_data_info volume projector adjoint s =
     (case projector of
        None \<Rightarrow>
          (let (proj_matrix, s1) = ProjMatrixByBinUsingRayTracing s;
               s2 = set_do_symmetry_90degrees_min_phi proj_matrix True s1;
               s3 = set_do_symmetry_180degrees_min_phi proj_matrix True s2;
               s4 = set_do_symmetry_swap_s proj_matrix True s3;
               s5 = set_do_symmetry_swap_segment proj_matrix True s4;
               s6 = set_num_tangential_LORs proj_matrix 1 s5
           in case matrix_set_up proj_matrix proj_data_info volume s6 of
                (Inl e, s7) \<Rightarrow> (Inl e, s7)
              | (Inr _, s7) \<Rightarrow>
                  (let (p, s8) = ForwardProjectorByBinUsingProjMatrixByBin proj_matrix s7
                   in case forward_projector_set_up p proj_data_info volume s8 of
                        (Inl e, s9) \<Rightarrow> (Inl e, s9)
                      | (Inr _, s9) \<Rightarrow>
                          (case adjoint of
                             None \<Rightarrow>
                               (let (b, s10) = BackProjectorByBinUsingProjMatrixByBin proj_matrix s9
                                in case back_projector_set_up b proj_data_info volume s10 of
                                     (Inl e, s11) \<Rightarrow> (Inl e, s11)
                                   | (Inr _, s11) \<Rightarrow>
                                       (Inr (Some proj_matrix, ForwardProjectorByBin p,
                                             Some (BackProjectorByBin b)), s11))
                           | Some _ \<Rightarrow>
                               (Inr (Some proj_matrix, ForwardProjectorByBin p, None), s9))))
      | Some given \<Rightarrow> (Inr (None, given, None), s))"

text \<open>
  The statement \<^verbatim>\<open>if back_projector is None: ... else: ...\<close> of
  \<^verbatim>\<open>BackProjectorByBinWrapper.__init__\<close>. It returns \<^verbatim>\<open>self.back_projector\<close> and the
  local \<^verbatim>\<open>projector\<close>. The back projector is set up with
  \<^verbatim>\<open>self.proj_data.get_proj_data_info()\<close>, the forward one with
  \<^verbatim>\<open>self.proj_data_info\<close>.
\<close>

definition back_projector_block ::
  "nat \<Rightarrow> pyval \<Rightarrow> nat \<Rightarrow> pyval option \<Rightarrow> pyval option \<Rightarrow> state \<Rightarrow>
     (error + pyval \<times> pyval option) \<times> state" where
  "back_projector_block proj_data proj_data_info volume back_projector adjoint s =
     (case back_projector of
        None \<Rightarrow>
          (let (proj_matrix, s1) = ProjMatrixByBinUsingRayTracing s;
               (b, s2) = BackProjectorByBinUsingProjMatrixByBin proj_matrix s1
           in case back_projector_set_up b (get_proj_data_info proj_data) volume s2 of
                (Inl e, s3) \<Rightarrow> (Inl e, s3)
              | (Inr _, s3) \<Rightarrow>
                  (case adjoint of
                     None \<Rightarrow>
                       (let (p, s4) = ForwardProjectorByBinUsingProjMatrixByBin proj_matrix s3
                        in case forward_projector_set_up p proj_data_info volume s4 of
                             (Inl e, s5) \<Rightarrow> (Inl e, s5)
                           | (Inr _, s5) \<Rightarrow>
                               (Inr (BackProjectorByBin b, Some (ForwardProjectorByBin p)), s5))
                   | Some _ \<Rightarrow> (Inr (BackProjectorByBin b, None), s3)))
      | Some given \<Rightarrow> (Inr (given, None), s))"

text \<open>
  The two \<^verbatim>\<open>__init__\<close> methods. Each makes the other operator when it is given no
  adjoint. The forward one passes
  \<^verbatim>\<open>(self.range, self.domain, self.volume, self.proj_data, back_projector, self)\<close>,
  which the back one receives as its \<^verbatim>\<open>back_projector\<close> and \<^verbatim>\<open>adjoint\<close>. The back one
  passes \<^verbatim>\<open>(self.range, self.domain, self.volume, self.proj_data, projector, self)\<close>,
  and the fifth and sixth parameters of the forward one are \<^verbatim>\<open>_proj_info\<close> and
  \<^verbatim>\<open>projector\<close>, so its \<^verbatim>\<open>adjoint\<close> stays \<^verbatim>\<open>None\<close>. Both calls leave \<^verbatim>\<open>verbosity\<close> at
  its default 0.
\<close>

function
  ForwardProjectorByBinWrapper_init ::
    "nat \<Rightarrow> DiscreteLp \<Rightarrow> DiscreteLp \<Rightarrow> nat \<Rightarrow> nat \<Rightarrow> pyval option \<Rightarrow> pyval option \<Rightarrow>
       pyval option \<Rightarrow> int \<Rightarrow> state \<Rightarrow> (error + unit) \<times> state"
and
  BackProjectorByBinWrapper_init ::
    "nat \<Rightarrow> DiscreteLp \<Rightarrow> DiscreteLp \<Rightarrow> nat \<Rightarrow> nat \<Rightarrow> pyval option \<Rightarrow> pyval option \<Rightarrow>
       int \<Rightarrow> state \<Rightarrow> (error + unit) \<times> state"
where
  "ForwardProjectorByBinWrapper_init self domain range' volume proj_data proj_info projector
       adjoint verbosity s =
     (if shape domain \<noteq> buf_shape (buffers s (Volume volume))
      then (Inl (ValueError (''domain.shape '' @ str_tuple (shape domain) @
                   '' does not equal volume shape '' @
                   str_tuple (buf_shape (buffers s (Volume volume))))), s)
      else
        (let proj_shape = buf_shape (buffers s (ProjData proj_data))
         in if shape range' \<noteq> proj_shape
            then (Inl (ValueError (''range.shape '' @ str_tuple (shape range') @
                         '' does not equal proj shape '' @ str_tuple proj_shape)), s)
            else
              (let proj_data_info =
                     (case proj_info of
                        None \<Rightarrow> get_proj_data_info proj_data
                      | Some given \<Rightarrow> given)
               in case forward_projector_block proj_data_info volume projector adjoint s of
                    (Inl e, s1) \<Rightarrow> (Inl e, s1)
                  | (Inr (proj_matrix, projector', back_projector), s1) \<Rightarrow>
                      (case adjoint of
                         None \<Rightarrow>
                           (let (a, s2) = new_object s1
                            in case BackProjectorByBinWrapper_init a range' domain volume
                                      proj_data back_projector (Some (Operator self)) 0 s2 of
                                 (Inl e, s3) \<Rightarrow> (Inl e, s3)
                               | (Inr _, s3) \<Rightarrow>
                                   (Inr (),
                                    set_object self
                                      (Forward
                                         \<lparr> self_verbosity = verbosity,
                                           self_domain = domain,
                                           self_range = range',
                                           self_proj_data = proj_data,
                                           self_proj_data_info = proj_data_info,
                                           self_volume = volume,
                                           self_adjoint = Operator a,
                                           self_proj_matrix = proj_matrix,
                                           self_projector = projector' \<rparr>) s3))
                       | Some given \<Rightarrow>
                           (Inr (),
                            set_object self
                              (Forward
                                 \<lparr> self_verbosity = verbosity,
                                   self_domain = domain,
                                   self_range = range',
                                   self_proj_data = proj_data,
                                   self_proj_data_info = proj_data_info,
                                   self_volume = volume,
                                   self_adjoint = given,
                                   self_proj_matrix = proj_matrix,
                                   self_projector = projector' \<rparr>) s1)))))"
| "BackProjectorByBinWrapper_init self domain range' volume proj_data back_projector adjoint
       verbosity s =
     (if shape range' \<noteq> buf_shape (buffers s (Volume volume))
      then (Inl (ValueError (''`range.shape` '' @ str_tuple (shape range') @
                   '' does not equal volume shape '' @
                   str_tuple (buf_shape (buffers s (Volume volume))))), s)
      else
        (let proj_shape = buf_shape (buffers s (ProjData proj_data))
         in if shape domain \<noteq> proj_shape
            then (Inl (ValueError (''`domain.shape` '' @ str_tuple (shape range') @
                         '' does not equal proj shape '' @ str_tuple proj_shape)), s)
            else
              (let proj_data_info = get_proj_data_info proj_data
               in case back_projector_block proj_data proj_data_info volume back_projector
                         adjoint s of
                    (Inl e, s1) \<Rightarrow> (Inl e, s1)
                  | (Inr (back_projector', projector), s1) \<Rightarrow>
                      (case adjoint of
                         None \<Rightarrow>
                           (let (a, s2) = new_object s1
                            in case ForwardProjectorByBinWrapper_init a range' domain volume
                                      proj_data projector (Some (Operator self)) None 0 s2 of
                                 (Inl e, s3) \<Rightarrow> (Inl e, s3)
                               | (Inr _, s3) \<Rightarrow>
                                   (Inr (),
                                    set_object self
                                      (Back
                                         \<lparr> self_verbosity = verbosity,
                                           self_domain = domain,
                                           self_range = range',
                                           self_proj_data = proj_data,
                                           self_proj_data_info = proj_data_info,
                                           self_volume = volume,
                                           self_adjoint = Operator a,
                                           self_back_projector = back_projector' \<rparr>) s3))
                       | Some given \<Rightarrow>
                           (Inr (),
                            set_object self
                              (Back
                                 \<lparr> self_verbosity = verbosity,
                                   self_domain = domain,
                                   self_range = range',
                                   self_proj_data = proj_data,
                                   self_proj_data_info = proj_data_info,
                                   self_volume = volume,
                                   self_adjoint = given,
                                   self_back_projector = back_projector' \<rparr>) s1)))))"
  by pat_completeness auto
termination
  by (relation "measure (\<lambda>x. case x of
          Inl (self, domain, range', volume, proj_data, proj_info, projector, adjoint, rest) \<Rightarrow>
            (if adjoint = None then 1 else 0)
        | Inr (self, domain, range', volume, proj_data, back_projector, adjoint, rest) \<Rightarrow>
            (if adjoint = None then 2 else 0))") auto

declare ForwardProjectorByBinWrapper_init.simps [simp del]
declare BackProjectorByBinWrapper_init.simps [simp del]

text \<open>
  The calls \<^verbatim>\<open>ForwardProjectorByBinWrapper(...)\<close> and \<^verbatim>\<open>BackProjectorByBinWrapper(...)\<close>:
  Python makes the object, runs \<^verbatim>\<open>__init__\<close> on it and returns it.
\<close>

definition ForwardProjectorByBinWrapper ::
  "DiscreteLp \<Rightarrow> DiscreteLp \<Rightarrow> nat \<Rightarrow> nat \<Rightarrow> pyval option \<Rightarrow> pyval option \<Rightarrow> pyval option \<Rightarrow>
     int \<Rightarrow> state \<Rightarrow> (error + nat) \<times> state" where
  "ForwardProjectorByBinWrapper domain range' volume proj_data proj_info projector adjoint
       verbosity s =
     (let (self, s1) = new_object s
      in case ForwardProjectorByBinWrapper_init self domain range' volume proj_data proj_info
                projector adjoint verbosity s1 of
           (Inl e, s2) \<Rightarrow> (Inl e, s2)
         | (Inr _, s2) \<Rightarrow> (Inr self, s2))"

definition BackProjectorByBinWrapper ::
  "DiscreteLp \<Rightarrow> DiscreteLp \<Rightarrow> nat \<Rightarrow> nat \<Rightarrow> pyval option \<Rightarrow> pyval option \<Rightarrow> int \<Rightarrow> state \<Rightarrow>
     (error + nat) \<times> state" where
  "BackProjectorByBinWrapper domain range' volume proj_data back_projector adjoint
       verbosity s =
     (let (self, s1) = new_object s
      in case BackProjectorByBinWrapper_init self domain range' volume proj_data back_projector
                adjoint verbosity s1 of
           (Inl e, s2) \<Rightarrow> (Inl e, s2)
         | (Inr _, s2) \<Rightarrow> (Inr self, s2))"

text \<open>
  The property \<^verbatim>\<open>adjoint\<close>. \<^verbatim>\<open>ForwardProjectorByBinWrapper\<close> defines it and returns
  \<^verbatim>\<open>self._adjoint\<close>. \<^verbatim>\<open>BackProjectorByBinWrapper\<close> sets \<^verbatim>\<open>self._adjoint\<close> but defines no
  such property, so on a back operator the look-up reaches \<^verbatim>\<open>odl.Operator.adjoint\<close>,
  which raises \<^verbatim>\<open>OpNotImplementedError\<close> (the text of its message is not modelled).
  \<open>adjoint_of\<close> is \<^verbatim>\<open>op.adjoint\<close> for the operator at an address, \<open>None\<close> when there
  is no operator there.
\<close>

definition adjoint_property :: "py_object \<Rightarrow> error + pyval" where
  "adjoint_property obj =
     (case obj of
        Forward self \<Rightarrow> Inr (self_adjoint self)
      | Back self \<Rightarrow> Inl (OpNotImplementedError ''adjoint not implemented for operator''))"

definition adjoint_of :: "state \<Rightarrow> nat \<Rightarrow> (error + pyval) option" where
  "adjoint_of s a = map_option adjoint_property (objects s a)"

text \<open>
  The matrix of the engine projector that the operator at an address holds (a forward
  operator's \<^verbatim>\<open>projector\<close>, a back operator's \<^verbatim>\<open>back_projector\<close>), when it holds one
  of its own direction.
\<close>

definition matrix_of_projector :: "engine_projector list \<Rightarrow> nat \<Rightarrow> nat option" where
  "matrix_of_projector ps p = (if p < length ps then Some (matrix (ps ! p)) else None)"

definition matrix_of_operator :: "state \<Rightarrow> nat \<Rightarrow> nat option" where
  "matrix_of_operator s a =
     (case objects s a of
        None \<Rightarrow> None
      | Some (Forward f) \<Rightarrow>
          (case self_projector f of
             ForwardProjectorByBin p \<Rightarrow> matrix_of_projector (forward_projectors s) p
           | _ \<Rightarrow> None)
      | Some (Back b) \<Rightarrow>
          (case self_back_projector b of
             BackProjectorByBin p \<Rightarrow> matrix_of_projector (back_projectors s) p
           | _ \<Rightarrow> None))"

section \<open>Concrete inputs\<close>

text \<open>
  An engine to run the functions on: two scanner names, a scanner with every field
  zero for any name, a consistency predicate that asks for at least one ring, and no
  rounding. The state has one matrix with a forward projector on it, volumes of
  shape \<open>(4, 4, 4)\<close> filled with 1 and projection data of shape \<open>(12, 5, 5)\<close> filled
  with 7.
\<close>

definition zero_scanner :: stir_scanner where
  "zero_scanner =
     \<lparr> get_num_rings = 0, get_num_detectors_per_ring = 0, get_default_bin_size = 0,
       get_default_num_arccorrected_bins = 0, get_default_intrinsic_tilt = 0,
       get_inner_ring_radius = 0, get_ring_spacing = 0, get_average_depth_of_interaction = 0,
       get_max_num_non_arccorrected_bins = 0, get_num_axial_blocks_per_bucket = 0,
       get_num_transaxial_blocks_per_bucket = 0, get_num_axial_crystals_per_block = 0,
       get_num_transaxial_crystals_per_block = 0, get_num_axial_crystals_per_singles_unit = 0,
       get_num_transaxial_crystals_per_singles_unit = 0, get_num_detector_layers = 0 \<rparr>"

definition example_api :: stir_api where
  "example_api =
     \<lparr> SCANNER_NAMES = [''ECAT 931'', ''Siemens mCT''],
       scanner_from_name = (\<lambda>_. zero_scanner),
       check_consistency = (\<lambda>sc. 0 < get_num_rings sc),
       np_float32 = (\<lambda>x. x) \<rparr>"

definition example_state :: state where
  "example_state =
     \<lparr> Verbosity = 2,
       scanners_made = 0,
       proj_matrices =
         [\<lparr> do_symmetry_90degrees_min_phi = Some False,
            do_symmetry_180degrees_min_phi = Some False,
            do_symmetry_swap_s = Some False,
            do_symmetry_swap_segment = Some False,
            num_tangential_LORs = Some 5,
            set_up_called = True \<rparr>],
       forward_projectors = [\<lparr>matrix = 0, projector_set_up = True\<rparr>],
       back_projectors = [],
       buffers =
         (\<lambda>b. case b of
                Volume _ \<Rightarrow> \<lparr>buf_shape = [4, 4, 4], buf_data = replicate 64 1\<rparr>
              | ProjData _ \<Rightarrow> \<lparr>buf_shape = [12, 5, 5], buf_data = replicate 300 7\<rparr>),
       calls = [],
       objects = Map.empty,
       next_id = 0 \<rparr>"

text \<open>A call of \<^verbatim>\<open>stir_get_STIR_geometry\<close> that leaves every optional argument out.\<close>

definition required_only :: "int \<Rightarrow> int \<Rightarrow> real \<Rightarrow> real \<Rightarrow> real \<Rightarrow> real \<Rightarrow> geometry_call" where
  "required_only rings dets radius spacing depth voxel =
     \<lparr> a_num_rings = rings,
       a_num_dets_per_ring = dets,
       a_det_radius = radius,
       a_ring_spacing = spacing,
       a_average_depth_of_inter = depth,
       a_voxel_size_xy = voxel,
       a_axial_crystals_per_block = None,
       a_trans_crystals_per_block = None,
       a_axials_blocks_per_bucket = None,
       a_trans_blocks_per_bucket = None,
       a_axial_crystals_per_singles_unit = None,
       a_trans_crystals_per_singles_unit = None,
       a_num_detector_layers = None,
       a_intrinsic_tilt = None,
       a_max_num_non_arc_cor_bins = None,
       a_default_non_arc_cor_bins = None \<rparr>"

text \<open>
  A forward and a back operator on volume 0 and projection data 0, and two stand-ins
  for the engine's projection: one that raises, one that returns the destination as
  it found it.
\<close>

definition example_forward :: forward_wrapper where
  "example_forward =
     \<lparr> self_verbosity = 0,
       self_domain = \<lparr>shape = [4, 4, 4]\<rparr>,
       self_range = \<lparr>shape = [12, 5, 5]\<rparr>,
       self_proj_data = 0,
       self_proj_data_info = ProjDataInfo 0,
       self_volume = 0,
       self_adjoint = Operator 1,
       self_proj_matrix = Some 0,
       self_projector = ForwardProjectorByBin 0 \<rparr>"

definition example_back :: back_wrapper where
  "example_back =
     \<lparr> self_verbosity = 0,
       self_domain = \<lparr>shape = [12, 5, 5]\<rparr>,
       self_range = \<lparr>shape = [4, 4, 4]\<rparr>,
       self_proj_data = 0,
       self_proj_data_info = ProjDataInfo 0,
       self_volume = 0,
       self_adjoint = Operator 0,
       self_back_projector = BackProjectorByBin 0 \<rparr>"

definition raising_engine :: projection_engine where
  "raising_engine s call = Inl (EngineError ''projection failed'')"

definition idle_engine :: projection_engine where
  "idle_engine s call = Inr (call_out_before call)"

section \<open>Scanner geometry and compression: properties\<close>

lemma py_int_half: "0 \<le> n \<Longrightarrow> py_int (real_of_int n / 2) = n div 2"
  unfolding py_int_def
  by (simp add: floor_divide_of_int_eq[of n 2, simplified])

lemma bind_error_Inr: "bind_error m f = Inr y \<longleftrightarrow> (\<exists>x. m = Inr x \<and> f x = Inr y)"
  by (cases m) (simp_all add: bind_error_def)

lemma set_int32_Inr:
  "set_int32 upd v sc = Inr sc' \<longleftrightarrow> np_int32 v = Inr v \<and> sc' = upd (\<lambda>_. v) sc"
  by (auto simp: set_int32_def bind_error_def np_int32_def)

lemma configure_Inr:
  "configure api l sc = Inr sc' \<Longrightarrow>
     sc' = \<lparr> get_num_rings = l_num_rings l,
            get_num_detectors_per_ring = l_num_dets_per_ring l,
            get_default_bin_size = np_float32 api (l_voxel_size_xy l),
            get_default_num_arccorrected_bins = l_default_non_arc_cor_bins l,
            get_default_intrinsic_tilt = np_float32 api (l_intrinsic_tilt l),
            get_inner_ring_radius = np_float32 api (l_det_radius l),
            get_ring_spacing = np_float32 api (l_ring_spacing l),
            get_average_depth_of_interaction = np_float32 api (l_average_depth_of_inter l),
            get_max_num_non_arccorrected_bins = l_max_num_non_arc_cor_bins l,
            get_num_axial_blocks_per_bucket = l_axials_blocks_per_bucket l,
            get_num_transaxial_blocks_per_bucket = l_trans_blocks_per_bucket l,
            get_num_axial_crystals_per_block = l_axial_crystals_per_block l,
            get_num_transaxial_crystals_per_block = l_trans_crystals_per_block l,
            get_num_axial_crystals_per_singles_unit = l_axial_crystals_per_singles_unit l,
            get_num_transaxial_crystals_per_singles_unit = l_trans_crystals_per_singles_unit l,
            get_num_detector_layers = l_num_detector_layers l \<rparr>"
  unfolding configure_def setter_calls_def
  by (cases sc) (auto simp: bind_error_Inr set_int32_Inr set_float32_def)

lemma geometry_result:
  "stir_get_STIR_geometry api a s =
     ((case configure api (resolve_defaults a) (scanner_from_name api []) of
         Inl e \<Rightarrow> Inl e
       | Inr sc \<Rightarrow>
           if check_consistency api sc then Inr sc
           else Inl (TypeError ''Something is wrong in the scanner geometry.'')),
      s\<lparr>scanners_made := Suc (scanners_made s)\<rparr>)"
  by (simp add: stir_get_STIR_geometry_def Scanner_get_scanner_from_name_def
        check_consistency_py_def Let_def split: sum.split)

lemma get_stir_scanner_mCT:
  "get_stir_scanner example_api mCT s =
     (Inr \<lparr> get_num_rings = 8, get_num_detectors_per_ring = 112,
            get_default_bin_size = 1.65, get_default_num_arccorrected_bins = 56,
            get_default_intrinsic_tilt = 0, get_inner_ring_radius = 57.5,
            get_ring_spacing = 6.25, get_average_depth_of_interaction = 7,
            get_max_num_non_arccorrected_bins = 56, get_num_axial_blocks_per_bucket = 1,
            get_num_transaxial_blocks_per_bucket = 16, get_num_axial_crystals_per_block = 8,
            get_num_transaxial_crystals_per_block = 7,
            get_num_axial_crystals_per_singles_unit = 8,
            get_num_transaxial_crystals_per_singles_unit = 0, get_num_detector_layers = 1 \<rparr>,
      s\<lparr>scanners_made := Suc (scanners_made s)\<rparr>)"
  by (simp add: get_stir_scanner_def geometry_result mCT_def configure_def setter_calls_def
        resolve_defaults_def or_default_def py_int_def set_int32_def set_float32_def
        bind_error_def np_int32_def example_api_def zero_scanner_def)

text \<open>
  Claim C4. For every \<^verbatim>\<open>Compression\<close>, \<^verbatim>\<open>get_max_ring_diff\<close> returns
  \<^verbatim>\<open>max_num_segments\<close> when it is set and \<^verbatim>\<open>scanner.num_rings - 1\<close> when it is
  \<^verbatim>\<open>None\<close>; with 8 rings and \<^verbatim>\<open>max_num_segments\<close> unset it returns 7, as it does for
  a \<^verbatim>\<open>Compression\<close> just made from the scanner \<^verbatim>\<open>mCT\<close>.
\<close>

theorem get_max_ring_diff_effective:
  "get_max_ring_diff c =
     (case max_num_segments c of Some m \<Rightarrow> m | None \<Rightarrow> num_rings (scanner c) - 1)
   \<and> get_max_ring_diff
       (c\<lparr>scanner := (scanner c)\<lparr>num_rings := 8\<rparr>, max_num_segments := None\<rparr>) = 7
   \<and> get_max_ring_diff (Compression_init mCT) = 7"
  by (simp add: get_max_ring_diff_def get_default_max_diff_ring_def Compression_init_def mCT_def
        split: option.split)

text \<open>
  Claim C5. The constructor sets the view count and the tangential-bin count to
  \<^verbatim>\<open>num_dets_per_ring // 2\<close> (56 for the 112 detectors of \<^verbatim>\<open>mCT\<close>).
  \<^verbatim>\<open>get_num_tangential\<close> returns the configured count when it is set; when it is
  \<^verbatim>\<open>None\<close> it returns the scanner's \<^verbatim>\<open>default_non_arc_cor_bins\<close> if
  \<^verbatim>\<open>data_arc_corrected\<close> holds and its \<^verbatim>\<open>max_num_non_arc_cor_bins\<close> otherwise. The
  projection-data info that \<^verbatim>\<open>get_stir_proj_data_info\<close> returns is made with the
  configured view count and with the count \<^verbatim>\<open>get_num_tangential\<close> returns.
\<close>

theorem views_and_tangential_bins:
  "num_of_views (Compression_init sc) = num_dets_per_ring sc div 2
   \<and> num_non_arccor_bins (Compression_init sc) = Some (num_dets_per_ring sc div 2)
   \<and> get_num_tangential (Compression_init sc) = Some (num_dets_per_ring sc div 2)
   \<and> num_of_views (Compression_init mCT) = 56
   \<and> get_num_tangential (Compression_init mCT) = Some 56
   \<and> get_num_tangential (c\<lparr>num_non_arccor_bins := Some n\<rparr>) = Some n
   \<and> get_num_tangential (c\<lparr>num_non_arccor_bins := None, data_arc_corrected := True\<rparr>) =
       default_non_arc_cor_bins (scanner c)
   \<and> get_num_tangential (c\<lparr>num_non_arccor_bins := None, data_arc_corrected := False\<rparr>) =
       max_num_non_arc_cor_bins (scanner c)
   \<and> (fst (get_stir_proj_data_info api c s) = Inr info \<longrightarrow>
        info_num_views info = num_of_views c
        \<and> Some (info_num_tangential_poss info) = get_num_tangential c)"
  by (auto simp: Compression_init_def get_num_tangential_def get_default_num_tangential_def
        mCT_def get_stir_proj_data_info_def split: prod.splits sum.splits option.splits)

theorem views_and_tangential_bins_witness:
  "\<exists>info. fst (get_stir_proj_data_info example_api (Compression_init mCT) example_state) =
       Inr info
     \<and> info_num_views info = 56 \<and> info_num_tangential_poss info = 56"
proof -
  have run: "\<exists>info. fst (get_stir_proj_data_info example_api (Compression_init mCT)
      example_state) = Inr info"
    by (simp add: get_stir_proj_data_info_def get_stir_scanner_mCT Compression_init_def
          get_num_tangential_def)
  then obtain info where info:
    "fst (get_stir_proj_data_info example_api (Compression_init mCT) example_state) = Inr info"
    by blast
  with views_and_tangential_bins [where sc = mCT and c = "Compression_init mCT" and n = 0
      and api = example_api and s = example_state and info = info]
  have "info_num_views info = 56 \<and> Some (info_num_tangential_poss info) = Some 56"
    by simp
  with info show ?thesis by auto
qed

text \<open>
  Claim C6. \<^verbatim>\<open>stir_get_STIR_geometry\<close> returns a scanner exactly when the configured
  scanner passes the engine's consistency predicate, and raises the error of the
  geometry check (in the source a \<^verbatim>\<open>TypeError\<close>) when it does not pass. A scanner
  that is returned passes the predicate and has every one of its sixteen fields set
  from the resolved parameters: nothing of the scanner the engine started from is
  left. A parameter that \<^verbatim>\<open>np.int32\<close> rejects raises before the check, and nothing
  is returned then either.
\<close>

theorem stir_get_STIR_geometry_atomic:
  "(fst (stir_get_STIR_geometry api a s) = Inr sc \<longleftrightarrow>
      configure api (resolve_defaults a) (scanner_from_name api []) = Inr sc
      \<and> check_consistency api sc)
   \<and> (configure api (resolve_defaults a) (scanner_from_name api []) = Inr sc
        \<and> \<not> check_consistency api sc \<longrightarrow>
      fst (stir_get_STIR_geometry api a s) =
        Inl (TypeError ''Something is wrong in the scanner geometry.''))
   \<and> (configure api (resolve_defaults a) (scanner_from_name api []) = Inl e \<longrightarrow>
      fst (stir_get_STIR_geometry api a s) = Inl e)
   \<and> (fst (stir_get_STIR_geometry api a s) = Inr sc \<longrightarrow>
      sc =
        (let l = resolve_defaults a
         in \<lparr> get_num_rings = l_num_rings l,
              get_num_detectors_per_ring = l_num_dets_per_ring l,
              get_default_bin_size = np_float32 api (l_voxel_size_xy l),
              get_default_num_arccorrected_bins = l_default_non_arc_cor_bins l,
              get_default_intrinsic_tilt = np_float32 api (l_intrinsic_tilt l),
              get_inner_ring_radius = np_float32 api (l_det_radius l),
              get_ring_spacing = np_float32 api (l_ring_spacing l),
              get_average_depth_of_interaction = np_float32 api (l_average_depth_of_inter l),
              get_max_num_non_arccorrected_bins = l_max_num_non_arc_cor_bins l,
              get_num_axial_blocks_per_bucket = l_axials_blocks_per_bucket l,
              get_num_transaxial_blocks_per_bucket = l_trans_blocks_per_bucket l,
              get_num_axial_crystals_per_block = l_axial_crystals_per_block l,
              get_num_transaxial_crystals_per_block = l_trans_crystals_per_block l,
              get_num_axial_crystals_per_singles_unit = l_axial_crystals_per_singles_unit l,
              get_num_transaxial_crystals_per_singles_unit =
                l_trans_crystals_per_singles_unit l,
              get_num_detector_layers = l_num_detector_layers l \<rparr>))"
proof -
  let ?c = "configure api (resolve_defaults a) (scanner_from_name api [])"
  have iff: "fst (stir_get_STIR_geometry api a s) = Inr sc \<longleftrightarrow>
      ?c = Inr sc \<and> check_consistency api sc"
    by (cases ?c) (auto simp: geometry_result)
  have fails: "?c = Inr sc \<and> \<not> check_consistency api sc \<longrightarrow>
      fst (stir_get_STIR_geometry api a s) =
        Inl (TypeError ''Something is wrong in the scanner geometry.'')"
    by (simp add: geometry_result)
  have raises: "?c = Inl e \<longrightarrow> fst (stir_get_STIR_geometry api a s) = Inl e"
    by (simp add: geometry_result)
  have built: "fst (stir_get_STIR_geometry api a s) = Inr sc \<longrightarrow>
      sc =
        (let l = resolve_defaults a
         in \<lparr> get_num_rings = l_num_rings l,
              get_num_detectors_per_ring = l_num_dets_per_ring l,
              get_default_bin_size = np_float32 api (l_voxel_size_xy l),
              get_default_num_arccorrected_bins = l_default_non_arc_cor_bins l,
              get_default_intrinsic_tilt = np_float32 api (l_intrinsic_tilt l),
              get_inner_ring_radius = np_float32 api (l_det_radius l),
              get_ring_spacing = np_float32 api (l_ring_spacing l),
              get_average_depth_of_interaction = np_float32 api (l_average_depth_of_inter l),
              get_max_num_non_arccorrected_bins = l_max_num_non_arc_cor_bins l,
              get_num_axial_blocks_per_bucket = l_axials_blocks_per_bucket l,
              get_num_transaxial_blocks_per_bucket = l_trans_blocks_per_bucket l,
              get_num_axial_crystals_per_block = l_axial_crystals_per_block l,
              get_num_transaxial_crystals_per_block = l_trans_crystals_per_block l,
              get_num_axial_crystals_per_singles_unit = l_axial_crystals_per_singles_unit l,
              get_num_transaxial_crystals_per_singles_unit =
                l_trans_crystals_per_singles_unit l,
              get_num_detector_layers = l_num_detector_layers l \<rparr>)"
    unfolding iff Let_def using configure_Inr [of api "resolve_defaults a" _ sc] by blast
  from iff fails raises built show ?thesis by blast
qed

theorem stir_get_STIR_geometry_atomic_witness:
  "fst (stir_get_STIR_geometry example_api (required_only 8 112 57.5 6.25 7 1.65)
        example_state) =
     Inr \<lparr> get_num_rings = 8, get_num_detectors_per_ring = 112,
           get_default_bin_size = 1.65, get_default_num_arccorrected_bins = 56,
           get_default_intrinsic_tilt = 0, get_inner_ring_radius = 57.5,
           get_ring_spacing = 6.25, get_average_depth_of_interaction = 7,
           get_max_num_non_arccorrected_bins = 56, get_num_axial_blocks_per_bucket = 1,
           get_num_transaxial_blocks_per_bucket = 1, get_num_axial_crystals_per_block = 1,
           get_num_transaxial_crystals_per_block = 1,
           get_num_axial_crystals_per_singles_unit = 1,
           get_num_transaxial_crystals_per_singles_unit = 1, get_num_detector_layers = 1 \<rparr>
   \<and> fst (stir_get_STIR_geometry example_api (required_only 0 112 57.5 6.25 7 1.65)
          example_state) =
       Inl (TypeError ''Something is wrong in the scanner geometry.'')"
proof -
  let ?built = "\<lambda>rings.
      \<lparr> get_num_rings = rings, get_num_detectors_per_ring = 112,
        get_default_bin_size = 1.65, get_default_num_arccorrected_bins = 56,
        get_default_intrinsic_tilt = 0, get_inner_ring_radius = 57.5,
        get_ring_spacing = 6.25, get_average_depth_of_interaction = 7,
        get_max_num_non_arccorrected_bins = 56, get_num_axial_blocks_per_bucket = 1,
        get_num_transaxial_blocks_per_bucket = 1, get_num_axial_crystals_per_block = 1,
        get_num_transaxial_crystals_per_block = 1,
        get_num_axial_crystals_per_singles_unit = 1,
        get_num_transaxial_crystals_per_singles_unit = 1, get_num_detector_layers = 1 \<rparr>"
  have c8: "configure example_api (resolve_defaults (required_only 8 112 57.5 6.25 7 1.65))
      (scanner_from_name example_api []) = Inr (?built 8)"
    by (simp add: configure_def setter_calls_def resolve_defaults_def or_default_def py_int_def
          set_int32_def set_float32_def bind_error_def np_int32_def example_api_def
          zero_scanner_def required_only_def)
  have c0: "configure example_api (resolve_defaults (required_only 0 112 57.5 6.25 7 1.65))
      (scanner_from_name example_api []) = Inr (?built 0)"
    by (simp add: configure_def setter_calls_def resolve_defaults_def or_default_def py_int_def
          set_int32_def set_float32_def bind_error_def np_int32_def example_api_def
          zero_scanner_def required_only_def)
  have ok: "check_consistency example_api (?built 8)"
    and bad: "\<not> check_consistency example_api (?built 0)"
    by (simp_all add: example_api_def)
  from stir_get_STIR_geometry_atomic
      [of example_api "required_only 8 112 57.5 6.25 7 1.65" example_state "?built 8"] c8 ok
  have "fst (stir_get_STIR_geometry example_api (required_only 8 112 57.5 6.25 7 1.65)
      example_state) = Inr (?built 8)"
    by blast
  moreover
  from stir_get_STIR_geometry_atomic
      [of example_api "required_only 0 112 57.5 6.25 7 1.65" example_state "?built 0"] c0 bad
  have "fst (stir_get_STIR_geometry example_api (required_only 0 112 57.5 6.25 7 1.65)
      example_state) = Inl (TypeError ''Something is wrong in the scanner geometry.'')"
    by blast
  ultimately show ?thesis by simp
qed

text \<open>
  Claim C7. An optional argument that the caller leaves out resolves as follows: the
  six block, bucket and crystal counts and the number of detector layers to 1, the
  intrinsic tilt to 0, \<^verbatim>\<open>max_num_non_arc_cor_bins\<close> to \<open>\<lfloor>num_dets_per_ring / 2\<rfloor>\<close>, and
  \<^verbatim>\<open>_default_non_arc_cor_bins\<close> to the resolved \<^verbatim>\<open>max_num_non_arc_cor_bins\<close>. The
  detector count is one of the data model (not negative) that \<^verbatim>\<open>np.int32\<close> accepts:
  the source halves it with a float division, \<^verbatim>\<open>int(_num_dets_per_ring/2)\<close>, which is
  exact there.
\<close>

theorem resolve_defaults_omitted:
  "(a_axial_crystals_per_block a = None \<longrightarrow>
      l_axial_crystals_per_block (resolve_defaults a) = 1)
   \<and> (a_trans_crystals_per_block a = None \<longrightarrow>
      l_trans_crystals_per_block (resolve_defaults a) = 1)
   \<and> (a_axials_blocks_per_bucket a = None \<longrightarrow>
      l_axials_blocks_per_bucket (resolve_defaults a) = 1)
   \<and> (a_trans_blocks_per_bucket a = None \<longrightarrow>
      l_trans_blocks_per_bucket (resolve_defaults a) = 1)
   \<and> (a_axial_crystals_per_singles_unit a = None \<longrightarrow>
      l_axial_crystals_per_singles_unit (resolve_defaults a) = 1)
   \<and> (a_trans_crystals_per_singles_unit a = None \<longrightarrow>
      l_trans_crystals_per_singles_unit (resolve_defaults a) = 1)
   \<and> (a_num_detector_layers a = None \<longrightarrow> l_num_detector_layers (resolve_defaults a) = 1)
   \<and> (a_intrinsic_tilt a = None \<longrightarrow> l_intrinsic_tilt (resolve_defaults a) = 0)
   \<and> (a_max_num_non_arc_cor_bins a = None
        \<and> 0 \<le> a_num_dets_per_ring a \<and> a_num_dets_per_ring a \<le> 2147483647 \<longrightarrow>
      l_max_num_non_arc_cor_bins (resolve_defaults a) =
        \<lfloor>real_of_int (a_num_dets_per_ring a) / 2\<rfloor>)
   \<and> (a_default_non_arc_cor_bins a = None \<longrightarrow>
      l_default_non_arc_cor_bins (resolve_defaults a) =
        l_max_num_non_arc_cor_bins (resolve_defaults a))"
proof -
  have floor: "a_max_num_non_arc_cor_bins a = None \<and> 0 \<le> a_num_dets_per_ring a \<longrightarrow>
      l_max_num_non_arc_cor_bins (resolve_defaults a) =
        \<lfloor>real_of_int (a_num_dets_per_ring a) / 2\<rfloor>"
    by (simp add: resolve_defaults_def py_int_def Let_def)
  show ?thesis
    using floor by (simp add: resolve_defaults_def or_default_def Let_def)
qed

theorem resolve_defaults_omitted_witness:
  "(let l = resolve_defaults (required_only 8 112 57.5 6.25 7 1.65)
    in l_axial_crystals_per_block l = 1 \<and> l_trans_crystals_per_block l = 1
       \<and> l_axials_blocks_per_bucket l = 1 \<and> l_trans_blocks_per_bucket l = 1
       \<and> l_axial_crystals_per_singles_unit l = 1 \<and> l_trans_crystals_per_singles_unit l = 1
       \<and> l_num_detector_layers l = 1 \<and> l_intrinsic_tilt l = 0
       \<and> l_max_num_non_arc_cor_bins l = 56 \<and> l_default_non_arc_cor_bins l = 56)"
  using resolve_defaults_omitted [of "required_only 8 112 57.5 6.25 7 1.65"]
  by (simp add: required_only_def Let_def)

text \<open>
  Claim C8. For a name that is not in the registry \<^verbatim>\<open>SCANNER_NAMES\<close>, both
  \<^verbatim>\<open>_get_scanner_by_name\<close> and \<^verbatim>\<open>get_scanner_by_name\<close> raise the error of an unknown
  scanner (in the source a \<^verbatim>\<open>ValueError\<close> that names the scanner) and leave the state
  as it was: the engine has made no scanner object.
\<close>

theorem unknown_scanner_name:
  "name \<notin> set (SCANNER_NAMES api) \<Longrightarrow>
     get_scanner_by_name_stir api name s =
       (Inl (ValueError (''No default scanner of name '' @ name)), s)
     \<and> get_scanner_by_name api name s =
       (Inl (ValueError (''No default scanner of name '' @ name)), s)
     \<and> scanners_made (snd (get_scanner_by_name api name s)) = scanners_made s"
  by (simp add: get_scanner_by_name_def get_scanner_by_name_stir_def)

theorem unknown_scanner_name_witness:
  "''Biograph'' \<notin> set (SCANNER_NAMES example_api)
   \<and> get_scanner_by_name example_api ''Biograph'' example_state =
       (Inl (ValueError ''No default scanner of name Biograph''), example_state)"
proof -
  have absent: "''Biograph'' \<notin> set (SCANNER_NAMES example_api)"
    by (simp add: example_api_def)
  from unknown_scanner_name [OF absent, of example_state] absent show ?thesis
    by simp
qed

section \<open>Applying an operator: properties\<close>

lemma with_StirVerbosity_eq:
  "with_StirVerbosity v body s =
     (fst (body (s\<lparr>Verbosity := v\<rparr>)),
      (snd (body (s\<lparr>Verbosity := v\<rparr>)))\<lparr>Verbosity := Verbosity s\<rparr>)"
  by (simp add: with_StirVerbosity_def StirVerbosity_enter_def StirVerbosity_exit_def
        split: prod.split)

lemma engine_project_calls:
  "calls (snd (engine_project engine method p b_out b_in s)) =
     calls s @ [\<lparr> call_method = method, call_projector = p, call_verbosity = Verbosity s,
                 call_out_before = buf_data (buffers s b_out),
                 call_in = buf_data (buffers s b_in) \<rparr>]"
  by (simp add: engine_project_def fill_def Let_def split: sum.split)

lemma call_with_stir_buffer_snd:
  "snd (call_with_stir_buffer function b_in b_out v_in v_out s) =
     snd (function b_out b_in
       (case v_out of
          None \<Rightarrow> fill b_in v_in s
        | Some zeros \<Rightarrow> fill b_out zeros (fill b_in v_in s)))"
  by (simp add: call_with_stir_buffer_def Let_def split: prod.split sum.split option.split)

lemma call_with_stir_buffer_calls:
  "b_in \<noteq> b_out \<Longrightarrow>
   calls (snd (call_with_stir_buffer (engine_project engine method p) b_in b_out v_in v_out s)) =
     calls s @ [\<lparr> call_method = method, call_projector = p, call_verbosity = Verbosity s,
                 call_out_before =
                   (case v_out of None \<Rightarrow> buf_data (buffers s b_out) | Some zeros \<Rightarrow> zeros),
                 call_in = v_in \<rparr>]"
  by (cases v_out) (simp_all add: call_with_stir_buffer_snd engine_project_calls fill_def)

lemma forward_call_calls:
  "calls (snd (ForwardProjectorByBinWrapper_call engine
       (fw\<lparr>self_projector := ForwardProjectorByBin p\<rparr>) x s)) =
     calls s @ [\<lparr> call_method = forward_project, call_projector = p,
                 call_verbosity = self_verbosity fw,
                 call_out_before = buf_data (buffers s (ProjData (self_proj_data fw))),
                 call_in = x \<rparr>]"
  by (simp add: ForwardProjectorByBinWrapper_call_def with_StirVerbosity_eq
        forward_project_of_def call_with_stir_buffer_calls fill_def Let_def)

lemma back_call_calls:
  "calls (snd (BackProjectorByBinWrapper_call engine
       (bw\<lparr>self_back_projector := BackProjectorByBin p\<rparr>) y s)) =
     calls s @ [\<lparr> call_method = back_project, call_projector = p,
                 call_verbosity = self_verbosity bw,
                 call_out_before = zero_of (self_range bw),
                 call_in = y \<rparr>]"
  by (simp add: BackProjectorByBinWrapper_call_def with_StirVerbosity_eq
        back_project_of_def call_with_stir_buffer_calls)

lemma forward_call_no_projector:
  "(\<forall>p. self_projector fw \<noteq> ForwardProjectorByBin p) \<Longrightarrow>
     calls (snd (ForwardProjectorByBinWrapper_call engine fw x s)) = calls s"
  by (cases "self_projector fw")
    (simp_all add: ForwardProjectorByBinWrapper_call_def with_StirVerbosity_eq
      forward_project_of_def fill_def)

lemma back_call_no_projector:
  "(\<forall>p. self_back_projector bw \<noteq> BackProjectorByBin p) \<Longrightarrow>
     calls (snd (BackProjectorByBinWrapper_call engine bw y s)) = calls s"
  by (cases "self_back_projector bw")
    (simp_all add: BackProjectorByBinWrapper_call_def with_StirVerbosity_eq
      back_project_of_def)

text \<open>
  Claim C3. The statement \<^verbatim>\<open>with StirVerbosity(v): body\<close> runs the body with the
  engine's level set to \<open>v\<close> and leaves the level as it found it, whatever the body
  does and whether it returns or raises. Both \<^verbatim>\<open>_call\<close> methods make their
  projection call inside such a statement: the level after the application is the
  level before it on every path (also when the engine raises, and when the operator
  holds no engine projector), and a projection call that reaches the engine is made
  at the operator's own \<^verbatim>\<open>verbosity\<close>.
\<close>

theorem verbosity_scoped:
  "with_StirVerbosity v body s =
     (fst (body (s\<lparr>Verbosity := v\<rparr>)),
      (snd (body (s\<lparr>Verbosity := v\<rparr>)))\<lparr>Verbosity := Verbosity s\<rparr>)
   \<and> Verbosity (snd (with_StirVerbosity v body s)) = Verbosity s
   \<and> Verbosity (snd (ForwardProjectorByBinWrapper_call engine fw x s)) = Verbosity s
   \<and> map call_verbosity (calls (snd (ForwardProjectorByBinWrapper_call engine fw x s))) =
       map call_verbosity (calls s) @
         (case self_projector fw of ForwardProjectorByBin p \<Rightarrow> [self_verbosity fw] | _ \<Rightarrow> [])
   \<and> Verbosity (snd (BackProjectorByBinWrapper_call engine bw y s)) = Verbosity s
   \<and> map call_verbosity (calls (snd (BackProjectorByBinWrapper_call engine bw y s))) =
       map call_verbosity (calls s) @
         (case self_back_projector bw of BackProjectorByBin p \<Rightarrow> [self_verbosity bw] | _ \<Rightarrow> [])"
proof -
  have scope: "Verbosity (snd (with_StirVerbosity v body s)) = Verbosity s" for s
    and body :: "state \<Rightarrow> (error + 'b) \<times> state" and v
    by (simp add: with_StirVerbosity_eq)
  have fwd: "Verbosity (snd (ForwardProjectorByBinWrapper_call engine fw x s)) = Verbosity s"
    by (simp add: ForwardProjectorByBinWrapper_call_def scope fill_def)
  have bwd: "Verbosity (snd (BackProjectorByBinWrapper_call engine bw y s)) = Verbosity s"
    by (simp add: BackProjectorByBinWrapper_call_def scope)
  have fwd_calls:
    "map call_verbosity (calls (snd (ForwardProjectorByBinWrapper_call engine fw x s))) =
       map call_verbosity (calls s) @
         (case self_projector fw of ForwardProjectorByBin p \<Rightarrow> [self_verbosity fw] | _ \<Rightarrow> [])"
  proof (cases "\<exists>p. self_projector fw = ForwardProjectorByBin p")
    case True
    then obtain p where p: "self_projector fw = ForwardProjectorByBin p" by blast
    then have "fw = fw\<lparr>self_projector := ForwardProjectorByBin p\<rparr>" by simp
    with forward_call_calls [where engine = engine and fw = fw and p = p and x = x and s = s] p
    show ?thesis by simp
  next
    case False
    then show ?thesis
      by (cases "self_projector fw") (simp_all add: forward_call_no_projector)
  qed
  have bwd_calls:
    "map call_verbosity (calls (snd (BackProjectorByBinWrapper_call engine bw y s))) =
       map call_verbosity (calls s) @
         (case self_back_projector bw of BackProjectorByBin p \<Rightarrow> [self_verbosity bw] | _ \<Rightarrow> [])"
  proof (cases "\<exists>p. self_back_projector bw = BackProjectorByBin p")
    case True
    then obtain p where p: "self_back_projector bw = BackProjectorByBin p" by blast
    then have "bw = bw\<lparr>self_back_projector := BackProjectorByBin p\<rparr>" by simp
    with back_call_calls [where engine = engine and bw = bw and p = p and y = y and s = s] p
    show ?thesis by simp
  next
    case False
    then show ?thesis
      by (cases "self_back_projector bw") (simp_all add: back_call_no_projector)
  qed
  from with_StirVerbosity_eq [of v body s] scope [of v body s] fwd bwd fwd_calls bwd_calls
  show ?thesis by simp
qed

text \<open>The same on a concrete application in which the engine raises.\<close>

theorem verbosity_scoped_witness:
  "fst (ForwardProjectorByBinWrapper_call raising_engine example_forward (replicate 64 3)
         example_state) = Inl (EngineError ''projection failed'')
   \<and> Verbosity (snd (ForwardProjectorByBinWrapper_call raising_engine example_forward
         (replicate 64 3) example_state)) = 2
   \<and> map call_verbosity (calls (snd (ForwardProjectorByBinWrapper_call raising_engine
         example_forward (replicate 64 3) example_state))) = [0]"
proof -
  have raised: "fst (ForwardProjectorByBinWrapper_call raising_engine example_forward
      (replicate 64 3) example_state) = Inl (EngineError ''projection failed'')"
    by (simp add: ForwardProjectorByBinWrapper_call_def with_StirVerbosity_eq
          forward_project_of_def call_with_stir_buffer_def engine_project_def
          raising_engine_def example_forward_def Let_def)
  from verbosity_scoped [where engine = raising_engine and fw = example_forward
      and x = "replicate 64 3" and s = example_state and bw = example_back and y = "[]"
      and v = 0 and body = "\<lambda>s. (Inr (), s)"] raised
  show ?thesis
    by (simp add: example_forward_def example_state_def)
qed

text \<open>
  Claim C10. A forward application fills only the volume buffer: when the engine
  receives \<^verbatim>\<open>forward_project\<close>, the projection-data buffer it is to write holds what
  it held before the application. A back application fills the projection-data
  buffer with its argument and the volume buffer with zeros: when the engine receives
  \<^verbatim>\<open>back_project\<close>, the volume buffer it is to write holds one zero for every cell of
  the operator's range.
\<close>

theorem output_buffer_before_projection:
  "calls (snd (ForwardProjectorByBinWrapper_call engine
       (fw\<lparr>self_projector := ForwardProjectorByBin p\<rparr>) x s)) =
     calls s @ [\<lparr> call_method = forward_project, call_projector = p,
                 call_verbosity = self_verbosity fw,
                 call_out_before = buf_data (buffers s (ProjData (self_proj_data fw))),
                 call_in = x \<rparr>]
   \<and> calls (snd (BackProjectorByBinWrapper_call engine
       (bw\<lparr>self_back_projector := BackProjectorByBin q\<rparr>) y s)) =
     calls s @ [\<lparr> call_method = back_project, call_projector = q,
                 call_verbosity = self_verbosity bw,
                 call_out_before = replicate (prod_list (shape (self_range bw))) 0,
                 call_in = y \<rparr>]"
  using forward_call_calls [where engine = engine and fw = fw and p = p and x = x and s = s]
    back_call_calls [where engine = engine and bw = bw and p = q and y = y and s = s]
  by (simp add: zero_of_def)

text \<open>
  On the concrete state the projection data hold 7 everywhere: the forward projection
  is handed that buffer, and with an engine that writes nothing the application
  returns it; the back projection is handed 64 zeros.
\<close>

theorem output_buffer_before_projection_witness:
  "map call_out_before (calls (snd (ForwardProjectorByBinWrapper_call idle_engine
       example_forward (replicate 64 3) example_state))) = [replicate 300 7]
   \<and> fst (ForwardProjectorByBinWrapper_call idle_engine example_forward (replicate 64 3)
       example_state) = Inr (replicate 300 7)
   \<and> map call_out_before (calls (snd (BackProjectorByBinWrapper_call idle_engine
       example_back (replicate 300 3) example_state))) = [replicate 64 0]"
proof -
  have f: "example_forward = example_forward\<lparr>self_projector := ForwardProjectorByBin 0\<rparr>"
    and b: "example_back = example_back\<lparr>self_back_projector := BackProjectorByBin 0\<rparr>"
    by (simp_all add: example_forward_def example_back_def)
  have returned: "fst (ForwardProjectorByBinWrapper_call idle_engine example_forward
      (replicate 64 3) example_state) = Inr (replicate 300 7)"
    by (simp add: ForwardProjectorByBinWrapper_call_def with_StirVerbosity_eq
          forward_project_of_def call_with_stir_buffer_def engine_project_def
          idle_engine_def example_forward_def example_state_def fill_def to_numpy_def Let_def)
  from output_buffer_before_projection [where engine = idle_engine and fw = example_forward
      and p = 0 and x = "replicate 64 3" and s = example_state and bw = example_back and q = 0
      and y = "replicate 300 3"] f b returned
  show ?thesis
    by (simp add: example_forward_def example_back_def example_state_def)
qed

section \<open>Constructing the operators: properties\<close>

lemma forward_projector_block_given:
  "forward_projector_block info volume (Some given) adjoint s = (Inr (None, given, None), s)"
  by (simp add: forward_projector_block_def)

lemma back_projector_block_given:
  "back_projector_block proj_data info volume (Some given) adjoint s = (Inr (given, None), s)"
  by (simp add: back_projector_block_def)

lemma back_projector_block_made:
  "back_projector_block proj_data info volume None (Some adj) s =
     (Inr (BackProjectorByBin (length (back_projectors s)), None),
      s\<lparr>proj_matrices := proj_matrices s @
          [bare_matrix],
        back_projectors := back_projectors s @
          [\<lparr>matrix = length (proj_matrices s), projector_set_up = True\<rparr>]\<rparr>)"
  by (simp add: back_projector_block_def ProjMatrixByBinUsingRayTracing_def
        BackProjectorByBinUsingProjMatrixByBin_def back_projector_set_up_def
        get_proj_data_info_def)

lemma forward_projector_block_made:
  "forward_projector_block (ProjDataInfo h) volume None None s =
     (Inr (Some (length (proj_matrices s)),
           ForwardProjectorByBin (length (forward_projectors s)),
           Some (BackProjectorByBin (length (back_projectors s)))),
      s\<lparr>proj_matrices := proj_matrices s @
          [\<lparr> do_symmetry_90degrees_min_phi = Some True,
             do_symmetry_180degrees_min_phi = Some True,
             do_symmetry_swap_s = Some True,
             do_symmetry_swap_segment = Some True,
             num_tangential_LORs = Some 1,
             set_up_called = True \<rparr>],
        forward_projectors := forward_projectors s @
          [\<lparr>matrix = length (proj_matrices s), projector_set_up = True\<rparr>],
        back_projectors := back_projectors s @
          [\<lparr>matrix = length (proj_matrices s), projector_set_up = True\<rparr>]\<rparr>)"
  by (simp add: forward_projector_block_def ProjMatrixByBinUsingRayTracing_def
        set_do_symmetry_90degrees_min_phi_def set_do_symmetry_180degrees_min_phi_def
        set_do_symmetry_swap_s_def set_do_symmetry_swap_segment_def set_num_tangential_LORs_def
        update_matrix_def matrix_set_up_def bare_matrix_def
        ForwardProjectorByBinUsingProjMatrixByBin_def forward_projector_set_up_def
        BackProjectorByBinUsingProjMatrixByBin_def back_projector_set_up_def)


lemma back_init_shape_error_volume:
  "shape range' \<noteq> buf_shape (buffers s (Volume volume)) \<Longrightarrow>
   BackProjectorByBinWrapper_init self domain range' volume proj_data back_projector adjoint
       verbosity s =
     (Inl (ValueError (''`range.shape` '' @ str_tuple (shape range') @
             '' does not equal volume shape '' @
             str_tuple (buf_shape (buffers s (Volume volume))))), s)"
  by (subst BackProjectorByBinWrapper_init.simps) simp

lemma back_init_shape_error_proj:
  "shape range' = buf_shape (buffers s (Volume volume)) \<Longrightarrow>
   shape domain \<noteq> buf_shape (buffers s (ProjData proj_data)) \<Longrightarrow>
   BackProjectorByBinWrapper_init self domain range' volume proj_data back_projector adjoint
       verbosity s =
     (Inl (ValueError (''`domain.shape` '' @ str_tuple (shape range') @
             '' does not equal proj shape '' @
             str_tuple (buf_shape (buffers s (ProjData proj_data))))), s)"
  by (subst BackProjectorByBinWrapper_init.simps) (simp add: Let_def)

lemma forward_init_shape_error_volume:
  "shape domain \<noteq> buf_shape (buffers s (Volume volume)) \<Longrightarrow>
   ForwardProjectorByBinWrapper_init self domain range' volume proj_data proj_info projector
       adjoint verbosity s =
     (Inl (ValueError (''domain.shape '' @ str_tuple (shape domain) @
             '' does not equal volume shape '' @
             str_tuple (buf_shape (buffers s (Volume volume))))), s)"
  by (subst ForwardProjectorByBinWrapper_init.simps) simp

lemma forward_init_shape_error_proj:
  "shape domain = buf_shape (buffers s (Volume volume)) \<Longrightarrow>
   shape range' \<noteq> buf_shape (buffers s (ProjData proj_data)) \<Longrightarrow>
   ForwardProjectorByBinWrapper_init self domain range' volume proj_data proj_info projector
       adjoint verbosity s =
     (Inl (ValueError (''range.shape '' @ str_tuple (shape range') @
             '' does not equal proj shape '' @
             str_tuple (buf_shape (buffers s (ProjData proj_data))))), s)"
  by (subst ForwardProjectorByBinWrapper_init.simps) (simp add: Let_def)

lemma back_init_given_both:
  "shape range' = buf_shape (buffers s (Volume volume)) \<Longrightarrow>
   shape domain = buf_shape (buffers s (ProjData proj_data)) \<Longrightarrow>
   BackProjectorByBinWrapper_init self domain range' volume proj_data (Some bp) (Some adj)
       verbosity s =
     (Inr (),
      set_object self
        (Back \<lparr> self_verbosity = verbosity, self_domain = domain, self_range = range',
                self_proj_data = proj_data, self_proj_data_info = ProjDataInfo proj_data,
                self_volume = volume, self_adjoint = adj, self_back_projector = bp \<rparr>) s)"
  by (subst BackProjectorByBinWrapper_init.simps)
    (simp add: Let_def back_projector_block_given get_proj_data_info_def)

lemma back_init_given_adjoint:
  "shape range' = buf_shape (buffers s (Volume volume)) \<Longrightarrow>
   shape domain = buf_shape (buffers s (ProjData proj_data)) \<Longrightarrow>
   BackProjectorByBinWrapper_init self domain range' volume proj_data None (Some adj)
       verbosity s =
     (Inr (),
      set_object self
        (Back \<lparr> self_verbosity = verbosity, self_domain = domain, self_range = range',
                self_proj_data = proj_data, self_proj_data_info = ProjDataInfo proj_data,
                self_volume = volume, self_adjoint = adj,
                self_back_projector = BackProjectorByBin (length (back_projectors s)) \<rparr>)
        (s\<lparr>proj_matrices := proj_matrices s @ [bare_matrix],
           back_projectors := back_projectors s @
             [\<lparr>matrix = length (proj_matrices s), projector_set_up = True\<rparr>]\<rparr>))"
  by (subst BackProjectorByBinWrapper_init.simps)
    (simp add: Let_def back_projector_block_made get_proj_data_info_def)


lemma forward_init_given_both:
  "shape domain = buf_shape (buffers s (Volume volume)) \<Longrightarrow>
   shape range' = buf_shape (buffers s (ProjData proj_data)) \<Longrightarrow>
   ForwardProjectorByBinWrapper_init self domain range' volume proj_data proj_info (Some p)
       (Some adj) verbosity s =
     (Inr (),
      set_object self
        (Forward \<lparr> self_verbosity = verbosity, self_domain = domain, self_range = range',
                   self_proj_data = proj_data,
                   self_proj_data_info =
                     (case proj_info of None \<Rightarrow> get_proj_data_info proj_data | Some given \<Rightarrow> given),
                   self_volume = volume, self_adjoint = adj, self_proj_matrix = None,
                   self_projector = p \<rparr>) s)"
  by (subst ForwardProjectorByBinWrapper_init.simps)
    (simp add: Let_def forward_projector_block_given get_proj_data_info_def)

lemma forward_init_given_projector:
  "shape domain = buf_shape (buffers s (Volume volume)) \<Longrightarrow>
   shape range' = buf_shape (buffers s (ProjData proj_data)) \<Longrightarrow>
   ForwardProjectorByBinWrapper_init self domain range' volume proj_data proj_info (Some p)
       None verbosity s =
     (Inr (),
      set_object self
        (Forward \<lparr> self_verbosity = verbosity, self_domain = domain, self_range = range',
                   self_proj_data = proj_data,
                   self_proj_data_info =
                     (case proj_info of None \<Rightarrow> get_proj_data_info proj_data | Some given \<Rightarrow> given),
                   self_volume = volume, self_adjoint = Operator (next_id s),
                   self_proj_matrix = None, self_projector = p \<rparr>)
        (set_object (next_id s)
           (Back \<lparr> self_verbosity = 0, self_domain = range', self_range = domain,
                   self_proj_data = proj_data, self_proj_data_info = ProjDataInfo proj_data,
                   self_volume = volume, self_adjoint = Operator self,
                   self_back_projector = BackProjectorByBin (length (back_projectors s)) \<rparr>)
           (s\<lparr>proj_matrices := proj_matrices s @ [bare_matrix],
              back_projectors := back_projectors s @
                [\<lparr>matrix = length (proj_matrices s), projector_set_up = True\<rparr>],
              next_id := Suc (next_id s)\<rparr>)))"
  by (subst ForwardProjectorByBinWrapper_init.simps)
    (simp add: Let_def forward_projector_block_given get_proj_data_info_def new_object_def
      back_init_given_adjoint set_object_def)

lemma forward_init_made:
  "shape domain = buf_shape (buffers s (Volume volume)) \<Longrightarrow>
   shape range' = buf_shape (buffers s (ProjData proj_data)) \<Longrightarrow>
   (case proj_info of None \<Rightarrow> get_proj_data_info proj_data | Some given \<Rightarrow> given) = ProjDataInfo h \<Longrightarrow>
   ForwardProjectorByBinWrapper_init self domain range' volume proj_data proj_info None
       None verbosity s =
     (Inr (),
      set_object self
        (Forward \<lparr> self_verbosity = verbosity, self_domain = domain, self_range = range',
                   self_proj_data = proj_data, self_proj_data_info = ProjDataInfo h,
                   self_volume = volume, self_adjoint = Operator (next_id s),
                   self_proj_matrix = Some (length (proj_matrices s)),
                   self_projector = ForwardProjectorByBin (length (forward_projectors s)) \<rparr>)
        (set_object (next_id s)
           (Back \<lparr> self_verbosity = 0, self_domain = range', self_range = domain,
                   self_proj_data = proj_data, self_proj_data_info = ProjDataInfo proj_data,
                   self_volume = volume, self_adjoint = Operator self,
                   self_back_projector = BackProjectorByBin (length (back_projectors s)) \<rparr>)
           (s\<lparr>proj_matrices := proj_matrices s @
                [\<lparr> do_symmetry_90degrees_min_phi = Some True,
                   do_symmetry_180degrees_min_phi = Some True,
                   do_symmetry_swap_s = Some True,
                   do_symmetry_swap_segment = Some True,
                   num_tangential_LORs = Some 1,
                   set_up_called = True \<rparr>],
              forward_projectors := forward_projectors s @
                [\<lparr>matrix = length (proj_matrices s), projector_set_up = True\<rparr>],
              back_projectors := back_projectors s @
                [\<lparr>matrix = length (proj_matrices s), projector_set_up = True\<rparr>],
              next_id := Suc (next_id s)\<rparr>)))"
  by (subst ForwardProjectorByBinWrapper_init.simps)
    (simp add: Let_def forward_projector_block_made get_proj_data_info_def new_object_def
      back_init_given_both set_object_def)

lemma forward_init_made_given_adjoint:
  "shape domain = buf_shape (buffers s (Volume volume)) \<Longrightarrow>
   shape range' = buf_shape (buffers s (ProjData proj_data)) \<Longrightarrow>
   (case proj_info of None \<Rightarrow> get_proj_data_info proj_data | Some given \<Rightarrow> given) = ProjDataInfo h \<Longrightarrow>
   ForwardProjectorByBinWrapper_init self domain range' volume proj_data proj_info None
       (Some adj) verbosity s =
     (Inr (),
      set_object self
        (Forward \<lparr> self_verbosity = verbosity, self_domain = domain, self_range = range',
                   self_proj_data = proj_data, self_proj_data_info = ProjDataInfo h,
                   self_volume = volume, self_adjoint = adj,
                   self_proj_matrix = Some (length (proj_matrices s)),
                   self_projector = ForwardProjectorByBin (length (forward_projectors s)) \<rparr>)
        (s\<lparr>proj_matrices := proj_matrices s @
             [\<lparr> do_symmetry_90degrees_min_phi = Some True,
                do_symmetry_180degrees_min_phi = Some True,
                do_symmetry_swap_s = Some True,
                do_symmetry_swap_segment = Some True,
                num_tangential_LORs = Some 1,
                set_up_called = True \<rparr>],
           forward_projectors := forward_projectors s @
             [\<lparr>matrix = length (proj_matrices s), projector_set_up = True\<rparr>]\<rparr>))"
  by (subst ForwardProjectorByBinWrapper_init.simps)
    (simp add: Let_def forward_projector_block_def ProjMatrixByBinUsingRayTracing_def
        set_do_symmetry_90degrees_min_phi_def set_do_symmetry_180degrees_min_phi_def
        set_do_symmetry_swap_s_def set_do_symmetry_swap_segment_def set_num_tangential_LORs_def
        update_matrix_def matrix_set_up_def bare_matrix_def
        ForwardProjectorByBinUsingProjMatrixByBin_def forward_projector_set_up_def
        get_proj_data_info_def)

lemma forward_init_set_up_error:
  "shape domain = buf_shape (buffers s (Volume volume)) \<Longrightarrow>
   shape range' = buf_shape (buffers s (ProjData proj_data)) \<Longrightarrow>
   proj_info = Some given \<Longrightarrow> (\<forall>h. given \<noteq> ProjDataInfo h) \<Longrightarrow>
   fst (ForwardProjectorByBinWrapper_init self domain range' volume proj_data proj_info None
       adjoint verbosity s) = Inl set_up_type_error"
  by (subst ForwardProjectorByBinWrapper_init.simps, cases given)
    (simp_all add: Let_def forward_projector_block_def ProjMatrixByBinUsingRayTracing_def
        matrix_set_up_def)

lemma back_init_made:
  "shape range' = buf_shape (buffers s (Volume volume)) \<Longrightarrow>
   shape domain = buf_shape (buffers s (ProjData proj_data)) \<Longrightarrow>
   BackProjectorByBinWrapper_init self domain range' volume proj_data None None verbosity s =
     (Inr (),
      set_object self
        (Back \<lparr> self_verbosity = verbosity, self_domain = domain, self_range = range',
                self_proj_data = proj_data, self_proj_data_info = ProjDataInfo proj_data,
                self_volume = volume, self_adjoint = Operator (next_id s),
                self_back_projector = BackProjectorByBin (length (back_projectors s)) \<rparr>)
        (set_object (next_id s)
           (Forward \<lparr> self_verbosity = 0, self_domain = range', self_range = domain,
                      self_proj_data = proj_data,
                      self_proj_data_info = ForwardProjectorByBin (length (forward_projectors s)),
                      self_volume = volume, self_adjoint = Operator (Suc (next_id s)),
                      self_proj_matrix = None, self_projector = Operator self \<rparr>)
           (set_object (Suc (next_id s))
              (Back \<lparr> self_verbosity = 0, self_domain = domain, self_range = range',
                      self_proj_data = proj_data, self_proj_data_info = ProjDataInfo proj_data,
                      self_volume = volume, self_adjoint = Operator (next_id s),
                      self_back_projector =
                        BackProjectorByBin (Suc (length (back_projectors s))) \<rparr>)
              (s\<lparr>proj_matrices := proj_matrices s @ [bare_matrix, bare_matrix],
                 forward_projectors := forward_projectors s @
                   [\<lparr>matrix = length (proj_matrices s), projector_set_up = True\<rparr>],
                 back_projectors := back_projectors s @
                   [\<lparr>matrix = length (proj_matrices s), projector_set_up = True\<rparr>,
                    \<lparr>matrix = Suc (length (proj_matrices s)), projector_set_up = True\<rparr>],
                 next_id := Suc (Suc (next_id s))\<rparr>))))"
  by (subst BackProjectorByBinWrapper_init.simps)
    (simp add: Let_def back_projector_block_def ProjMatrixByBinUsingRayTracing_def
        BackProjectorByBinUsingProjMatrixByBin_def back_projector_set_up_def
        ForwardProjectorByBinUsingProjMatrixByBin_def forward_projector_set_up_def
        get_proj_data_info_def new_object_def forward_init_given_projector set_object_def)

lemma forward_made_returns:
  "fst (ForwardProjectorByBinWrapper domain range' volume proj_data proj_info projector None
         verbosity s) = Inr f \<Longrightarrow>
     shape domain = buf_shape (buffers s (Volume volume))
     \<and> shape range' = buf_shape (buffers s (ProjData proj_data))
     \<and> (projector = None \<longrightarrow>
          (\<exists>h. (case proj_info of None \<Rightarrow> get_proj_data_info proj_data | Some given \<Rightarrow> given) =
                 ProjDataInfo h))"
proof (intro conjI impI)
  assume r: "fst (ForwardProjectorByBinWrapper domain range' volume proj_data proj_info projector
      None verbosity s) = Inr f"
  show vol: "shape domain = buf_shape (buffers s (Volume volume))"
  proof (rule ccontr)
    assume "shape domain \<noteq> buf_shape (buffers s (Volume volume))"
    then have "shape domain \<noteq> buf_shape (buffers (snd (new_object s)) (Volume volume))"
      by (simp add: new_object_def)
    from forward_init_shape_error_volume [OF this] r show False
      by (simp add: ForwardProjectorByBinWrapper_def new_object_def)
  qed
  show proj: "shape range' = buf_shape (buffers s (ProjData proj_data))"
  proof (rule ccontr)
    assume "shape range' \<noteq> buf_shape (buffers s (ProjData proj_data))"
    then have "shape range' \<noteq> buf_shape (buffers (snd (new_object s)) (ProjData proj_data))"
      and "shape domain = buf_shape (buffers (snd (new_object s)) (Volume volume))"
      using vol by (simp_all add: new_object_def)
    from forward_init_shape_error_proj [OF this(2) this(1)] r show False
      by (simp add: ForwardProjectorByBinWrapper_def new_object_def)
  qed
  assume none: "projector = None"
  show "\<exists>h. (case proj_info of None \<Rightarrow> get_proj_data_info proj_data | Some given \<Rightarrow> given) =
      ProjDataInfo h"
  proof (cases proj_info)
    case None
    then show ?thesis by (simp add: get_proj_data_info_def)
  next
    case (Some given)
    show ?thesis
    proof (rule ccontr)
      assume "\<not> ?thesis"
      with Some have no: "\<forall>h. given \<noteq> ProjDataInfo h" by simp
      have "shape domain = buf_shape (buffers (snd (new_object s)) (Volume volume))"
        and "shape range' = buf_shape (buffers (snd (new_object s)) (ProjData proj_data))"
        using vol proj by (simp_all add: new_object_def)
      from forward_init_set_up_error [OF this Some no, where self = "next_id s"
          and adjoint = None and verbosity = verbosity] r none
      show False
        by (simp add: ForwardProjectorByBinWrapper_def new_object_def
              split: prod.splits sum.splits)
    qed
  qed
qed

lemma forward_made_no_projector:
  assumes "shape domain = buf_shape (buffers s (Volume volume))"
    and "shape range' = buf_shape (buffers s (ProjData proj_data))"
    and "(case proj_info of None \<Rightarrow> get_proj_data_info proj_data | Some given \<Rightarrow> given) =
      ProjDataInfo h"
  shows "ForwardProjectorByBinWrapper domain range' volume proj_data proj_info None None
      verbosity s =
     (Inr (next_id s),
      set_object (next_id s)
        (Forward \<lparr> self_verbosity = verbosity, self_domain = domain, self_range = range',
                   self_proj_data = proj_data, self_proj_data_info = ProjDataInfo h,
                   self_volume = volume, self_adjoint = Operator (Suc (next_id s)),
                   self_proj_matrix = Some (length (proj_matrices s)),
                   self_projector = ForwardProjectorByBin (length (forward_projectors s)) \<rparr>)
        (set_object (Suc (next_id s))
           (Back \<lparr> self_verbosity = 0, self_domain = range', self_range = domain,
                   self_proj_data = proj_data, self_proj_data_info = ProjDataInfo proj_data,
                   self_volume = volume, self_adjoint = Operator (next_id s),
                   self_back_projector = BackProjectorByBin (length (back_projectors s)) \<rparr>)
           (s\<lparr>proj_matrices := proj_matrices s @
                [\<lparr> do_symmetry_90degrees_min_phi = Some True,
                   do_symmetry_180degrees_min_phi = Some True,
                   do_symmetry_swap_s = Some True,
                   do_symmetry_swap_segment = Some True,
                   num_tangential_LORs = Some 1,
                   set_up_called = True \<rparr>],
              forward_projectors := forward_projectors s @
                [\<lparr>matrix = length (proj_matrices s), projector_set_up = True\<rparr>],
              back_projectors := back_projectors s @
                [\<lparr>matrix = length (proj_matrices s), projector_set_up = True\<rparr>],
              next_id := Suc (Suc (next_id s))\<rparr>)))"
proof -
  have "shape domain = buf_shape (buffers (snd (new_object s)) (Volume volume))"
    and "shape range' = buf_shape (buffers (snd (new_object s)) (ProjData proj_data))"
    using assms by (simp_all add: new_object_def)
  from forward_init_made [OF this assms(3)] show ?thesis
    by (simp add: ForwardProjectorByBinWrapper_def new_object_def set_object_def)
qed

lemma forward_made_given_projector:
  assumes "shape domain = buf_shape (buffers s (Volume volume))"
    and "shape range' = buf_shape (buffers s (ProjData proj_data))"
  shows "ForwardProjectorByBinWrapper domain range' volume proj_data proj_info (Some p) None
      verbosity s =
     (Inr (next_id s),
      set_object (next_id s)
        (Forward \<lparr> self_verbosity = verbosity, self_domain = domain, self_range = range',
                   self_proj_data = proj_data,
                   self_proj_data_info =
                     (case proj_info of None \<Rightarrow> get_proj_data_info proj_data
                      | Some given \<Rightarrow> given),
                   self_volume = volume, self_adjoint = Operator (Suc (next_id s)),
                   self_proj_matrix = None, self_projector = p \<rparr>)
        (set_object (Suc (next_id s))
           (Back \<lparr> self_verbosity = 0, self_domain = range', self_range = domain,
                   self_proj_data = proj_data, self_proj_data_info = ProjDataInfo proj_data,
                   self_volume = volume, self_adjoint = Operator (next_id s),
                   self_back_projector = BackProjectorByBin (length (back_projectors s)) \<rparr>)
           (s\<lparr>proj_matrices := proj_matrices s @ [bare_matrix],
              back_projectors := back_projectors s @
                [\<lparr>matrix = length (proj_matrices s), projector_set_up = True\<rparr>],
              next_id := Suc (Suc (next_id s))\<rparr>)))"
proof -
  have "shape domain = buf_shape (buffers (snd (new_object s)) (Volume volume))"
    and "shape range' = buf_shape (buffers (snd (new_object s)) (ProjData proj_data))"
    using assms by (simp_all add: new_object_def)
  from forward_init_given_projector [OF this] show ?thesis
    by (simp add: ForwardProjectorByBinWrapper_def new_object_def set_object_def)
qed

text \<open>
  Claim C1, as the code has it. A \<^verbatim>\<open>ForwardProjectorByBinWrapper\<close> that is given no
  adjoint is constructed whenever the two shape checks pass and, if it is given no
  projector either, the projection-data info is one the engine's \<^verbatim>\<open>set_up\<close> takes.
  Every such construction makes exactly one system matrix, exactly one engine back
  projector and exactly two operator objects (itself and one back operator, no
  further pair): \<^verbatim>\<open>forward.adjoint\<close> is the back operator, and the attribute
  \<^verbatim>\<open>_adjoint\<close> of the back operator holds the forward operator. The back operator's
  engine projector is on the matrix made. When no projector is given, the forward
  operator's engine projector is made on that same matrix.
\<close>

theorem forward_builds_adjoint_pair:
  "(shape domain = buf_shape (buffers s (Volume volume))
      \<and> shape range' = buf_shape (buffers s (ProjData proj_data))
      \<and> (projector = None \<longrightarrow>
           (\<exists>h. (case proj_info of None \<Rightarrow> get_proj_data_info proj_data | Some given \<Rightarrow> given) =
                  ProjDataInfo h))
    \<longrightarrow> fst (ForwardProjectorByBinWrapper domain range' volume proj_data proj_info projector
              None verbosity s) = Inr (next_id s))
   \<and> (ForwardProjectorByBinWrapper domain range' volume proj_data proj_info projector None
         verbosity s = (Inr f, s')
    \<longrightarrow> f = next_id s
        \<and> (\<exists>fw bw. objects s' f = Some (Forward fw) \<and> self_adjoint fw = Operator (Suc f)
              \<and> objects s' (Suc f) = Some (Back bw) \<and> self_adjoint bw = Operator f)
        \<and> adjoint_of s' f = Some (Inr (Operator (Suc f)))
        \<and> length (proj_matrices s') = Suc (length (proj_matrices s))
        \<and> length (back_projectors s') = Suc (length (back_projectors s))
        \<and> length (forward_projectors s') =
            (if projector = None then Suc (length (forward_projectors s))
             else length (forward_projectors s))
        \<and> next_id s' = Suc (Suc (next_id s))
        \<and> matrix_of_operator s' (Suc f) = Some (length (proj_matrices s))
        \<and> (projector = None \<longrightarrow> matrix_of_operator s' f = Some (length (proj_matrices s))))"
proof (rule conjI; rule impI)
  assume pre: "shape domain = buf_shape (buffers s (Volume volume))
      \<and> shape range' = buf_shape (buffers s (ProjData proj_data))
      \<and> (projector = None \<longrightarrow>
           (\<exists>h. (case proj_info of None \<Rightarrow> get_proj_data_info proj_data | Some given \<Rightarrow> given) =
                  ProjDataInfo h))"
  show "fst (ForwardProjectorByBinWrapper domain range' volume proj_data proj_info projector
      None verbosity s) = Inr (next_id s)"
  proof (cases projector)
    case None
    with pre obtain h where
      "(case proj_info of None \<Rightarrow> get_proj_data_info proj_data | Some given \<Rightarrow> given) =
         ProjDataInfo h"
      by blast
    with pre None show ?thesis by (simp add: forward_made_no_projector)
  next
    case (Some p)
    with pre show ?thesis by (simp add: forward_made_given_projector)
  qed
next
  assume made: "ForwardProjectorByBinWrapper domain range' volume proj_data proj_info projector
      None verbosity s = (Inr f, s')"
  then have "fst (ForwardProjectorByBinWrapper domain range' volume proj_data proj_info
      projector None verbosity s) = Inr f"
    by simp
  from forward_made_returns [OF this]
  have vol: "shape domain = buf_shape (buffers s (Volume volume))"
    and proj: "shape range' = buf_shape (buffers s (ProjData proj_data))"
    and info: "projector = None \<longrightarrow>
      (\<exists>h. (case proj_info of None \<Rightarrow> get_proj_data_info proj_data | Some given \<Rightarrow> given) =
             ProjDataInfo h)"
    by blast+
  show "f = next_id s
      \<and> (\<exists>fw bw. objects s' f = Some (Forward fw) \<and> self_adjoint fw = Operator (Suc f)
            \<and> objects s' (Suc f) = Some (Back bw) \<and> self_adjoint bw = Operator f)
      \<and> adjoint_of s' f = Some (Inr (Operator (Suc f)))
      \<and> length (proj_matrices s') = Suc (length (proj_matrices s))
      \<and> length (back_projectors s') = Suc (length (back_projectors s))
      \<and> length (forward_projectors s') =
          (if projector = None then Suc (length (forward_projectors s))
           else length (forward_projectors s))
      \<and> next_id s' = Suc (Suc (next_id s))
      \<and> matrix_of_operator s' (Suc f) = Some (length (proj_matrices s))
      \<and> (projector = None \<longrightarrow> matrix_of_operator s' f = Some (length (proj_matrices s)))"
  proof (cases projector)
    case None
    with info obtain h where
      "(case proj_info of None \<Rightarrow> get_proj_data_info proj_data | Some given \<Rightarrow> given) =
         ProjDataInfo h"
      by blast
    from forward_made_no_projector [OF vol proj this, of verbosity] made None
    show ?thesis
      by (auto simp: set_object_def adjoint_of_def adjoint_property_def
            matrix_of_operator_def matrix_of_projector_def)
  next
    case (Some p)
    from forward_made_given_projector [OF vol proj, of proj_info p verbosity] made Some
    show ?thesis
      by (auto simp: set_object_def adjoint_of_def adjoint_property_def
            matrix_of_operator_def matrix_of_projector_def)
  qed
qed

text \<open>
  On the concrete state, with no projector given: the forward operator is at address
  0 and its adjoint is the back operator at address 1, and both engine projectors are
  on the new matrix 1.
\<close>

theorem forward_builds_adjoint_pair_witness:
  "(let made = ForwardProjectorByBinWrapper \<lparr>shape = [4, 4, 4]\<rparr> \<lparr>shape = [12, 5, 5]\<rparr> 0 0
                 None None None 0 example_state
    in fst made = Inr 0
       \<and> adjoint_of (snd made) 0 = Some (Inr (Operator 1))
       \<and> length (proj_matrices (snd made)) = 2
       \<and> matrix_of_operator (snd made) 0 = Some 1
       \<and> matrix_of_operator (snd made) 1 = Some 1)"
proof -
  let ?made = "ForwardProjectorByBinWrapper \<lparr>shape = [4, 4, 4]\<rparr> \<lparr>shape = [12, 5, 5]\<rparr> 0 0
      None None None 0 example_state"
  have pre: "shape \<lparr>shape = [4, 4, 4]\<rparr> = buf_shape (buffers example_state (Volume 0))
      \<and> shape \<lparr>shape = [12, 5, 5]\<rparr> = buf_shape (buffers example_state (ProjData 0))
      \<and> ((None :: pyval option) = None \<longrightarrow>
           (\<exists>h. (case None of None \<Rightarrow> get_proj_data_info 0 | Some given \<Rightarrow> given) =
                  ProjDataInfo h))"
    by (simp add: example_state_def get_proj_data_info_def)
  have start: "next_id example_state = 0" "length (proj_matrices example_state) = 1"
    by (simp_all add: example_state_def)
  have inst: "fst ?made = Inr (next_id example_state)
      \<and> (?made = (Inr 0, snd ?made) \<longrightarrow>
            adjoint_of (snd ?made) 0 = Some (Inr (Operator (Suc 0)))
            \<and> length (proj_matrices (snd ?made)) = Suc (length (proj_matrices example_state))
            \<and> matrix_of_operator (snd ?made) (Suc 0) =
                Some (length (proj_matrices example_state))
            \<and> matrix_of_operator (snd ?made) 0 = Some (length (proj_matrices example_state)))"
    using forward_builds_adjoint_pair [where domain = "\<lparr>shape = [4, 4, 4]\<rparr>"
        and range' = "\<lparr>shape = [12, 5, 5]\<rparr>" and volume = 0 and proj_data = 0
        and proj_info = None and projector = None and verbosity = 0 and s = example_state
        and f = 0 and s' = "snd ?made"] pre
    by blast
  then have "fst ?made = Inr 0" using start by simp
  then have "?made = (Inr 0, snd ?made)" by (metis prod.collapse)
  with inst start show ?thesis by (simp add: Let_def)
qed

text \<open>
  With a projector given (projector 0 of the concrete state, on matrix 0), the back
  operator is made on a new, bare matrix 1: the two operators of the pair are not on
  the same matrix.
\<close>

theorem forward_given_projector_not_shared:
  "fst (ForwardProjectorByBinWrapper \<lparr>shape = [4, 4, 4]\<rparr> \<lparr>shape = [12, 5, 5]\<rparr> 0 0 None
          (Some (ForwardProjectorByBin 0)) None 0 example_state) = Inr 0
   \<and> matrix_of_operator
       (snd (ForwardProjectorByBinWrapper \<lparr>shape = [4, 4, 4]\<rparr> \<lparr>shape = [12, 5, 5]\<rparr> 0 0 None
          (Some (ForwardProjectorByBin 0)) None 0 example_state)) 0 = Some 0
   \<and> matrix_of_operator
       (snd (ForwardProjectorByBinWrapper \<lparr>shape = [4, 4, 4]\<rparr> \<lparr>shape = [12, 5, 5]\<rparr> 0 0 None
          (Some (ForwardProjectorByBin 0)) None 0 example_state)) 1 = Some 1
   \<and> proj_matrices
       (snd (ForwardProjectorByBinWrapper \<lparr>shape = [4, 4, 4]\<rparr> \<lparr>shape = [12, 5, 5]\<rparr> 0 0 None
          (Some (ForwardProjectorByBin 0)) None 0 example_state)) ! 1 = bare_matrix"
proof -
  have "shape \<lparr>shape = [4, 4, 4]\<rparr> = buf_shape (buffers example_state (Volume 0))"
    and "shape \<lparr>shape = [12, 5, 5]\<rparr> = buf_shape (buffers example_state (ProjData 0))"
    by (simp_all add: example_state_def)
  from forward_made_given_projector [OF this, of None "ForwardProjectorByBin 0" 0]
  show ?thesis
    by (simp add: set_object_def matrix_of_operator_def matrix_of_projector_def
          example_state_def)
qed

lemma forward_made_given_adjoint:
  assumes "shape domain = buf_shape (buffers s (Volume volume))"
    and "shape range' = buf_shape (buffers s (ProjData proj_data))"
    and "(case proj_info of None \<Rightarrow> get_proj_data_info proj_data | Some given \<Rightarrow> given) =
      ProjDataInfo h"
  shows "ForwardProjectorByBinWrapper domain range' volume proj_data proj_info None (Some adj)
      verbosity s =
     (Inr (next_id s),
      set_object (next_id s)
        (Forward \<lparr> self_verbosity = verbosity, self_domain = domain, self_range = range',
                   self_proj_data = proj_data, self_proj_data_info = ProjDataInfo h,
                   self_volume = volume, self_adjoint = adj,
                   self_proj_matrix = Some (length (proj_matrices s)),
                   self_projector = ForwardProjectorByBin (length (forward_projectors s)) \<rparr>)
        (s\<lparr>proj_matrices := proj_matrices s @
             [\<lparr> do_symmetry_90degrees_min_phi = Some True,
                do_symmetry_180degrees_min_phi = Some True,
                do_symmetry_swap_s = Some True,
                do_symmetry_swap_segment = Some True,
                num_tangential_LORs = Some 1,
                set_up_called = True \<rparr>],
           forward_projectors := forward_projectors s @
             [\<lparr>matrix = length (proj_matrices s), projector_set_up = True\<rparr>],
           next_id := Suc (next_id s)\<rparr>))"
proof -
  have "shape domain = buf_shape (buffers (snd (new_object s)) (Volume volume))"
    and "shape range' = buf_shape (buffers (snd (new_object s)) (ProjData proj_data))"
    using assms by (simp_all add: new_object_def)
  from forward_init_made_given_adjoint [OF this assms(3)] show ?thesis
    by (simp add: ForwardProjectorByBinWrapper_def new_object_def set_object_def)
qed

lemma back_made_given_adjoint:
  assumes "shape range' = buf_shape (buffers s (Volume volume))"
    and "shape domain = buf_shape (buffers s (ProjData proj_data))"
  shows "BackProjectorByBinWrapper domain range' volume proj_data None (Some adj) verbosity s =
     (Inr (next_id s),
      set_object (next_id s)
        (Back \<lparr> self_verbosity = verbosity, self_domain = domain, self_range = range',
                self_proj_data = proj_data, self_proj_data_info = ProjDataInfo proj_data,
                self_volume = volume, self_adjoint = adj,
                self_back_projector = BackProjectorByBin (length (back_projectors s)) \<rparr>)
        (s\<lparr>proj_matrices := proj_matrices s @ [bare_matrix],
           back_projectors := back_projectors s @
             [\<lparr>matrix = length (proj_matrices s), projector_set_up = True\<rparr>],
           next_id := Suc (next_id s)\<rparr>))"
proof -
  have "shape range' = buf_shape (buffers (snd (new_object s)) (Volume volume))"
    and "shape domain = buf_shape (buffers (snd (new_object s)) (ProjData proj_data))"
    using assms by (simp_all add: new_object_def)
  from back_init_given_adjoint [OF this] show ?thesis
    by (simp add: BackProjectorByBinWrapper_def new_object_def set_object_def)
qed

lemma back_made:
  assumes "shape range' = buf_shape (buffers s (Volume volume))"
    and "shape domain = buf_shape (buffers s (ProjData proj_data))"
  shows "BackProjectorByBinWrapper domain range' volume proj_data None None verbosity s =
     (Inr (next_id s),
      set_object (next_id s)
        (Back \<lparr> self_verbosity = verbosity, self_domain = domain, self_range = range',
                self_proj_data = proj_data, self_proj_data_info = ProjDataInfo proj_data,
                self_volume = volume, self_adjoint = Operator (Suc (next_id s)),
                self_back_projector = BackProjectorByBin (length (back_projectors s)) \<rparr>)
        (set_object (Suc (next_id s))
           (Forward \<lparr> self_verbosity = 0, self_domain = range', self_range = domain,
                      self_proj_data = proj_data,
                      self_proj_data_info = ForwardProjectorByBin (length (forward_projectors s)),
                      self_volume = volume, self_adjoint = Operator (Suc (Suc (next_id s))),
                      self_proj_matrix = None, self_projector = Operator (next_id s) \<rparr>)
           (set_object (Suc (Suc (next_id s)))
              (Back \<lparr> self_verbosity = 0, self_domain = domain, self_range = range',
                      self_proj_data = proj_data, self_proj_data_info = ProjDataInfo proj_data,
                      self_volume = volume, self_adjoint = Operator (Suc (next_id s)),
                      self_back_projector =
                        BackProjectorByBin (Suc (length (back_projectors s))) \<rparr>)
              (s\<lparr>proj_matrices := proj_matrices s @ [bare_matrix, bare_matrix],
                 forward_projectors := forward_projectors s @
                   [\<lparr>matrix = length (proj_matrices s), projector_set_up = True\<rparr>],
                 back_projectors := back_projectors s @
                   [\<lparr>matrix = length (proj_matrices s), projector_set_up = True\<rparr>,
                    \<lparr>matrix = Suc (length (proj_matrices s)), projector_set_up = True\<rparr>],
                 next_id := Suc (Suc (Suc (next_id s)))\<rparr>))))"
proof -
  have "shape range' = buf_shape (buffers (snd (new_object s)) (Volume volume))"
    and "shape domain = buf_shape (buffers (snd (new_object s)) (ProjData proj_data))"
    using assms by (simp_all add: new_object_def)
  from back_init_made [OF this] show ?thesis
    by (simp add: BackProjectorByBinWrapper_def new_object_def set_object_def)
qed

text \<open>
  On a back operator the property \<^verbatim>\<open>adjoint\<close> raises, whatever its \<^verbatim>\<open>_adjoint\<close> holds.
\<close>

lemma back_adjoint_raises:
  "objects s a = Some (Back b) \<Longrightarrow>
     adjoint_of s a = Some (Inl (OpNotImplementedError ''adjoint not implemented for operator''))"
  by (simp add: adjoint_of_def adjoint_property_def)

text \<open>
  What a back operator constructed first, with neither back projector nor adjoint,
  leaves behind: its \<^verbatim>\<open>_adjoint\<close> holds a forward operator whose \<^verbatim>\<open>projector\<close> is the
  back operator itself (an operator object, not an engine projector, so it is on no
  matrix) and whose \<^verbatim>\<open>adjoint\<close> is a second back operator.
\<close>

lemma back_first_pair:
  assumes "shape range' = buf_shape (buffers s (Volume volume))"
    and "shape domain = buf_shape (buffers s (ProjData proj_data))"
    and "BackProjectorByBinWrapper domain range' volume proj_data None None verbosity s =
      (r, s')"
  shows "r = Inr (next_id s)"
    and "\<exists>bw. objects s' (next_id s) = Some (Back bw)
           \<and> self_adjoint bw = Operator (Suc (next_id s))"
    and "adjoint_of s' (Suc (next_id s)) = Some (Inr (Operator (Suc (Suc (next_id s)))))"
    and "\<exists>fw. objects s' (Suc (next_id s)) = Some (Forward fw)
           \<and> self_projector fw = Operator (next_id s)"
    and "matrix_of_operator s' (Suc (next_id s)) = None"
    and "length (proj_matrices s') = Suc (Suc (length (proj_matrices s)))"
  using back_made [OF assms(1,2), of verbosity] assms(3)
  by (auto simp: set_object_def adjoint_of_def adjoint_property_def matrix_of_operator_def)

text \<open>
  Claim C2, at the input where it fails. A back operator whose range has the volume's
  shape \<open>(4, 4, 4)\<close> and whose domain \<open>(10, 5, 5)\<close> differs from the projection data's
  shape \<open>(12, 5, 5)\<close>: the message gives \<open>(4, 4, 4)\<close>, the shape of the range, under the
  label \<^verbatim>\<open>domain.shape\<close>, and does not name the domain's shape. The forward operator's
  message for the same mismatch names it. Both raise with the engine's matrices
  and projectors as they were.
\<close>

theorem back_domain_mismatch_message:
  "BackProjectorByBinWrapper_init 0 \<lparr>shape = [10, 5, 5]\<rparr> \<lparr>shape = [4, 4, 4]\<rparr> 0 0 None None 0
       example_state =
     (Inl (ValueError ''`domain.shape` (4, 4, 4) does not equal proj shape (12, 5, 5)''),
      example_state)
   \<and> ForwardProjectorByBinWrapper_init 0 \<lparr>shape = [4, 4, 4]\<rparr> \<lparr>shape = [10, 5, 5]\<rparr> 0 0 None
       None None 0 example_state =
     (Inl (ValueError ''range.shape (10, 5, 5) does not equal proj shape (12, 5, 5)''),
      example_state)"
proof -
  have vol: "shape \<lparr>shape = [4, 4, 4]\<rparr> = buf_shape (buffers example_state (Volume 0))"
    and proj: "shape \<lparr>shape = [10, 5, 5]\<rparr> \<noteq> buf_shape (buffers example_state (ProjData 0))"
    by (simp_all add: example_state_def)
  have strs: "str_tuple [4, 4, 4] = ''(4, 4, 4)''" "str_tuple [10, 5, 5] = ''(10, 5, 5)''"
    "str_tuple [12, 5, 5] = ''(12, 5, 5)''"
    by (simp_all add: str_tuple_def str_nat.simps digit_char_def)
  have shapes: "buf_shape (buffers example_state (ProjData 0)) = [12, 5, 5]"
    by (simp add: example_state_def)
  from back_init_shape_error_proj [OF vol proj, of 0 None None 0]
    forward_init_shape_error_proj [OF vol proj, of 0 None None None 0]
  show ?thesis
    by (simp add: strs shapes)
qed

text \<open>
  Claim C9. For a volume space and a projection space that fit the buffers, a back
  operator constructed with no back projector (with or without an adjoint) is on a
  matrix that is as the engine made it: none of the four symmetries set, the number
  of tangential lines of response not set, \<^verbatim>\<open>set_up\<close> not called on it. A forward
  operator constructed with no projector is on a matrix with the four symmetries set
  to \<^verbatim>\<open>True\<close>, one tangential line of response, and \<^verbatim>\<open>set_up\<close> called. The two
  matrices differ, so the pair made from the back operator is not the pair made from
  the forward operator.
\<close>

theorem back_first_matrix_not_configured:
  "shape vol_space = buf_shape (buffers s (Volume volume))
     \<and> shape proj_space = buf_shape (buffers s (ProjData proj_data)) \<longrightarrow>
   (let m = length (proj_matrices s);
        n = next_id s;
        back_first = BackProjectorByBinWrapper proj_space vol_space volume proj_data None
                       adjoint verbosity s;
        forward_first = ForwardProjectorByBinWrapper vol_space proj_space volume proj_data None
                          None adjoint' verbosity' s
    in fst back_first = Inr n
       \<and> matrix_of_operator (snd back_first) n = Some m
       \<and> proj_matrices (snd back_first) ! m =
           \<lparr> do_symmetry_90degrees_min_phi = None,
             do_symmetry_180degrees_min_phi = None,
             do_symmetry_swap_s = None,
             do_symmetry_swap_segment = None,
             num_tangential_LORs = None,
             set_up_called = False \<rparr>
       \<and> fst forward_first = Inr n
       \<and> matrix_of_operator (snd forward_first) n = Some m
       \<and> proj_matrices (snd forward_first) ! m =
           \<lparr> do_symmetry_90degrees_min_phi = Some True,
             do_symmetry_180degrees_min_phi = Some True,
             do_symmetry_swap_s = Some True,
             do_symmetry_swap_segment = Some True,
             num_tangential_LORs = Some 1,
             set_up_called = True \<rparr>
       \<and> proj_matrices (snd back_first) ! m \<noteq> proj_matrices (snd forward_first) ! m)"
proof (rule impI)
  assume "shape vol_space = buf_shape (buffers s (Volume volume))
     \<and> shape proj_space = buf_shape (buffers s (ProjData proj_data))"
  then have vol: "shape vol_space = buf_shape (buffers s (Volume volume))"
    and proj: "shape proj_space = buf_shape (buffers s (ProjData proj_data))"
    by simp_all
  have info: "(case None of None \<Rightarrow> get_proj_data_info proj_data | Some given \<Rightarrow> given) =
      ProjDataInfo proj_data"
    by (simp add: get_proj_data_info_def)
  let ?b = "BackProjectorByBinWrapper proj_space vol_space volume proj_data None adjoint
      verbosity s"
  let ?f = "ForwardProjectorByBinWrapper vol_space proj_space volume proj_data None None
      adjoint' verbosity' s"
  have b: "fst ?b = Inr (next_id s)
      \<and> matrix_of_operator (snd ?b) (next_id s) = Some (length (proj_matrices s))
      \<and> proj_matrices (snd ?b) ! length (proj_matrices s) = bare_matrix"
  proof (cases adjoint)
    case None
    with back_made [OF vol proj, of verbosity] show ?thesis
      by (simp add: set_object_def matrix_of_operator_def matrix_of_projector_def nth_append)
  next
    case (Some adj)
    with back_made_given_adjoint [OF vol proj, of adj verbosity] show ?thesis
      by (simp add: set_object_def matrix_of_operator_def matrix_of_projector_def)
  qed
  have f: "fst ?f = Inr (next_id s)
      \<and> matrix_of_operator (snd ?f) (next_id s) = Some (length (proj_matrices s))
      \<and> proj_matrices (snd ?f) ! length (proj_matrices s) =
           \<lparr> do_symmetry_90degrees_min_phi = Some True,
             do_symmetry_180degrees_min_phi = Some True,
             do_symmetry_swap_s = Some True,
             do_symmetry_swap_segment = Some True,
             num_tangential_LORs = Some 1,
             set_up_called = True \<rparr>"
  proof (cases adjoint')
    case None
    with forward_made_no_projector [OF vol proj info, of verbosity'] show ?thesis
      by (simp add: set_object_def matrix_of_operator_def matrix_of_projector_def)
  next
    case (Some adj)
    with forward_made_given_adjoint [OF vol proj info, of adj verbosity'] show ?thesis
      by (simp add: set_object_def matrix_of_operator_def matrix_of_projector_def)
  qed
  from b f show "let m = length (proj_matrices s);
        n = next_id s;
        back_first = BackProjectorByBinWrapper proj_space vol_space volume proj_data None
                       adjoint verbosity s;
        forward_first = ForwardProjectorByBinWrapper vol_space proj_space volume proj_data None
                          None adjoint' verbosity' s
    in fst back_first = Inr n
       \<and> matrix_of_operator (snd back_first) n = Some m
       \<and> proj_matrices (snd back_first) ! m =
           \<lparr> do_symmetry_90degrees_min_phi = None,
             do_symmetry_180degrees_min_phi = None,
             do_symmetry_swap_s = None,
             do_symmetry_swap_segment = None,
             num_tangential_LORs = None,
             set_up_called = False \<rparr>
       \<and> fst forward_first = Inr n
       \<and> matrix_of_operator (snd forward_first) n = Some m
       \<and> proj_matrices (snd forward_first) ! m =
           \<lparr> do_symmetry_90degrees_min_phi = Some True,
             do_symmetry_180degrees_min_phi = Some True,
             do_symmetry_swap_s = Some True,
             do_symmetry_swap_segment = Some True,
             num_tangential_LORs = Some 1,
             set_up_called = True \<rparr>
       \<and> proj_matrices (snd back_first) ! m \<noteq> proj_matrices (snd forward_first) ! m"
    by (simp add: Let_def bare_matrix_def)
qed

text \<open>
  On the concrete state, which has one matrix already: either construction makes its
  operator at address 0 on the new matrix 1.
\<close>

theorem back_first_matrix_not_configured_witness:
  "(let back_first = BackProjectorByBinWrapper \<lparr>shape = [12, 5, 5]\<rparr> \<lparr>shape = [4, 4, 4]\<rparr> 0 0
                       None None 0 example_state;
        forward_first = ForwardProjectorByBinWrapper \<lparr>shape = [4, 4, 4]\<rparr> \<lparr>shape = [12, 5, 5]\<rparr>
                          0 0 None None None 0 example_state
    in fst back_first = Inr 0 \<and> fst forward_first = Inr 0
       \<and> matrix_of_operator (snd back_first) 0 = Some 1
       \<and> matrix_of_operator (snd forward_first) 0 = Some 1
       \<and> set_up_called (proj_matrices (snd forward_first) ! 1)
       \<and> \<not> set_up_called (proj_matrices (snd back_first) ! 1)
       \<and> proj_matrices (snd back_first) ! 1 \<noteq> proj_matrices (snd forward_first) ! 1)"
proof -
  have pre: "shape \<lparr>shape = [4, 4, 4]\<rparr> = buf_shape (buffers example_state (Volume 0))
      \<and> shape \<lparr>shape = [12, 5, 5]\<rparr> = buf_shape (buffers example_state (ProjData 0))"
    by (simp add: example_state_def)
  have start: "next_id example_state = 0" "length (proj_matrices example_state) = 1"
    by (simp_all add: example_state_def)
  from back_first_matrix_not_configured [where vol_space = "\<lparr>shape = [4, 4, 4]\<rparr>"
      and proj_space = "\<lparr>shape = [12, 5, 5]\<rparr>" and volume = 0 and proj_data = 0
      and s = example_state and adjoint = None and adjoint' = None and verbosity = 0
      and verbosity' = 0] pre start
  show ?thesis
    by (simp add: Let_def)
qed

end
